theory Spec2Isabelle
  imports Complex_Main
begin

section \<open>Values of the Python program\<close>

text \<open>
  The client in \<^verbatim>\<open>src/mcp_client.py\<close> works on values decoded from JSON. A Python
  \<^verbatim>\<open>str\<close> is kept as the list of the bytes of its UTF-8 encoding; a \<^verbatim>\<open>dict\<close> is an
  association list read with \<^const>\<open>map_of\<close>. The payload of a float is never looked at by
  this program except when it is compared with the integer 1.
\<close>

datatype json =
    JNull
  | JBool bool
  | JInt int
  | JFloat rat
  | JStr string
  | JArr "json list"
  | JObj "(string \<times> json) list"

text \<open>Exceptions carry their class and the text that \<^verbatim>\<open>str(e)\<close> gives.\<close>

datatype exc_class =
    Timeout | ConnectTimeout | ConnectionError
  | AttributeError | TypeError | KeyError | IndexError
  | JSONDecodeError | UnicodeDecodeError | OtherException

datatype py_exc = PyExc exc_class string

fun exc_str :: "py_exc \<Rightarrow> string" where
  "exc_str (PyExc cls msg) = msg"

fun exc_cls :: "py_exc \<Rightarrow> exc_class" where
  "exc_cls (PyExc cls msg) = cls"

text \<open>
  \<^verbatim>\<open>requests.ConnectTimeout\<close> inherits from both \<^verbatim>\<open>requests.Timeout\<close> and
  \<^verbatim>\<open>requests.ConnectionError\<close>.
\<close>

fun is_Timeout :: "exc_class \<Rightarrow> bool" where
  "is_Timeout Timeout = True"
| "is_Timeout ConnectTimeout = True"
| "is_Timeout _ = False"

fun is_ConnectionError :: "exc_class \<Rightarrow> bool" where
  "is_ConnectionError ConnectionError = True"
| "is_ConnectionError ConnectTimeout = True"
| "is_ConnectionError _ = False"

text \<open>Sequencing of a computation that may raise.\<close>

fun and_then :: "py_exc + 'a \<Rightarrow> ('a \<Rightarrow> py_exc + 'b) \<Rightarrow> py_exc + 'b" where
  "and_then (Inl e) f = Inl e"
| "and_then (Inr v) f = f v"

subsection \<open>The operations of Python used on decoded values\<close>

fun type_name :: "json \<Rightarrow> string" where
  "type_name JNull = ''NoneType''"
| "type_name (JBool b) = ''bool''"
| "type_name (JInt i) = ''int''"
| "type_name (JFloat r) = ''float''"
| "type_name (JStr s) = ''str''"
| "type_name (JArr xs) = ''list''"
| "type_name (JObj kvs) = ''dict''"

definition quoted :: "string \<Rightarrow> string" where
  "quoted s = CHR 0x27 # s @ [CHR 0x27]"

text \<open>\<^verbatim>\<open>x.get(k, d)\<close>: only a dict has the method.\<close>

fun dict_get :: "json \<Rightarrow> string \<Rightarrow> json \<Rightarrow> py_exc + json" where
  "dict_get (JObj kvs) k d = Inr (case map_of kvs k of None \<Rightarrow> d | Some v \<Rightarrow> v)"
| "dict_get v k d =
     Inl (PyExc AttributeError (quoted (type_name v) @ '' object has no attribute '' @ quoted ''get''))"

text \<open>\<^verbatim>\<open>v == s\<close> for a string constant, and \<^verbatim>\<open>v == i\<close> for an integer constant
  (where \<^verbatim>\<open>True == 1\<close> and \<^verbatim>\<open>1.0 == 1\<close> hold).\<close>

fun eq_str :: "json \<Rightarrow> string \<Rightarrow> bool" where
  "eq_str (JStr t) s = (t = s)"
| "eq_str v s = False"

fun eq_int :: "json \<Rightarrow> int \<Rightarrow> bool" where
  "eq_int (JInt j) i = (j = i)"
| "eq_int (JFloat r) i = (r = of_int i)"
| "eq_int (JBool b) i = ((if b then 1 else 0) = i)"
| "eq_int v i = False"

fun is_substring :: "string \<Rightarrow> string \<Rightarrow> bool" where
  "is_substring k [] = (k = [])"
| "is_substring k (c # cs) = (take (length k) (c # cs) = k \<or> is_substring k cs)"

text \<open>\<^verbatim>\<open>k in x\<close> for a string constant \<^verbatim>\<open>k\<close>.\<close>

fun py_contains :: "string \<Rightarrow> json \<Rightarrow> py_exc + bool" where
  "py_contains k (JObj kvs) = Inr (k \<in> set (map fst kvs))"
| "py_contains k (JArr xs) = Inr (JStr k \<in> set xs)"
| "py_contains k (JStr s) = Inr (is_substring k s)"
| "py_contains k v =
     Inl (PyExc TypeError (''argument of type '' @ quoted (type_name v) @ '' is not iterable''))"

text \<open>\<^verbatim>\<open>x[k]\<close> for a string constant \<^verbatim>\<open>k\<close>.\<close>

fun getitem_str :: "json \<Rightarrow> string \<Rightarrow> py_exc + json" where
  "getitem_str (JObj kvs) k =
     (case map_of kvs k of None \<Rightarrow> Inl (PyExc KeyError (quoted k)) | Some v \<Rightarrow> Inr v)"
| "getitem_str (JArr xs) k =
     Inl (PyExc TypeError ''list indices must be integers or slices, not str'')"
| "getitem_str (JStr s) k =
     Inl (PyExc TypeError (''string indices must be integers, not '' @ quoted ''str''))"
| "getitem_str v k =
     Inl (PyExc TypeError (quoted (type_name v) @ '' object is not subscriptable''))"

text \<open>A byte \<^verbatim>\<open>10xxxxxx\<close> continues a character; the others start one.\<close>

definition is_continuation :: "char \<Rightarrow> bool" where
  "is_continuation c = ((128::nat) \<le> of_char c \<and> (of_char c :: nat) < 192)"

text \<open>\<^verbatim>\<open>len(x)\<close>.\<close>

fun py_len :: "json \<Rightarrow> py_exc + nat" where
  "py_len (JObj kvs) = Inr (length (remdups (map fst kvs)))"
| "py_len (JArr xs) = Inr (length xs)"
| "py_len (JStr s) = Inr (length (filter (\<lambda>c. \<not> is_continuation c) s))"
| "py_len v =
     Inl (PyExc TypeError (''object of type '' @ quoted (type_name v) @ '' has no len()''))"

text \<open>\<^verbatim>\<open>x[0]\<close>. The keys of a decoded dict are strings, so the key 0 is never there.\<close>

fun getitem_0 :: "json \<Rightarrow> py_exc + json" where
  "getitem_0 (JArr []) = Inl (PyExc IndexError ''list index out of range'')"
| "getitem_0 (JArr (x # xs)) = Inr x"
| "getitem_0 (JStr []) = Inl (PyExc IndexError ''string index out of range'')"
| "getitem_0 (JStr (c # cs)) = Inr (JStr (c # takeWhile is_continuation cs))"
| "getitem_0 (JObj kvs) = Inl (PyExc KeyError ''0'')"
| "getitem_0 v =
     Inl (PyExc TypeError (quoted (type_name v) @ '' object is not subscriptable''))"

text \<open>
  \<^verbatim>\<open>json.loads\<close> belongs to the Python library, not to this repository: it is a parameter
  \<open>loads\<close> of every function that calls it, returning the decoded value or the exception
  it raises. \<^verbatim>\<open>json.loads(v)\<close> accepts a string only.
\<close>

type_synonym decoder = "string \<Rightarrow> py_exc + json"

fun json_loads :: "decoder \<Rightarrow> json \<Rightarrow> py_exc + json" where
  "json_loads loads (JStr s) = loads s"
| "json_loads loads v =
     Inl (PyExc TypeError
       (''the JSON object must be str, bytes or bytearray, not '' @ type_name v))"

subsection \<open>String methods\<close>

definition startswith :: "string \<Rightarrow> string \<Rightarrow> bool" where
  "startswith s p = (take (length p) s = p)"

text \<open>The characters that \<^verbatim>\<open>str.strip()\<close> removes, each as its UTF-8 encoding.\<close>

definition py_whitespace :: "string list" where
  "py_whitespace =
    [ [CHR 0x09], [CHR 0x0A], [CHR 0x0B], [CHR 0x0C], [CHR 0x0D],
     [CHR 0x1C], [CHR 0x1D], [CHR 0x1E], [CHR 0x1F], [CHR 0x20],
     [CHR 0xC2, CHR 0x85], [CHR 0xC2, CHR 0xA0],
     [CHR 0xE1, CHR 0x9A, CHR 0x80],
     [CHR 0xE2, CHR 0x80, CHR 0x80], [CHR 0xE2, CHR 0x80, CHR 0x81],
     [CHR 0xE2, CHR 0x80, CHR 0x82], [CHR 0xE2, CHR 0x80, CHR 0x83],
     [CHR 0xE2, CHR 0x80, CHR 0x84], [CHR 0xE2, CHR 0x80, CHR 0x85],
     [CHR 0xE2, CHR 0x80, CHR 0x86], [CHR 0xE2, CHR 0x80, CHR 0x87],
     [CHR 0xE2, CHR 0x80, CHR 0x88], [CHR 0xE2, CHR 0x80, CHR 0x89],
     [CHR 0xE2, CHR 0x80, CHR 0x8A],
     [CHR 0xE2, CHR 0x80, CHR 0xA8], [CHR 0xE2, CHR 0x80, CHR 0xA9],
     [CHR 0xE2, CHR 0x80, CHR 0xAF], [CHR 0xE2, CHR 0x81, CHR 0x9F],
     [CHR 0xE3, CHR 0x80, CHR 0x80] ]"

text \<open>The number of bytes of the entry of the table that the string starts with, 0 if none.\<close>

definition leading :: "string list \<Rightarrow> string \<Rightarrow> nat" where
  "leading tbl s = (case find (\<lambda>w. take (length w) s = w) tbl of None \<Rightarrow> 0 | Some w \<Rightarrow> length w)"

function strip_front :: "string list \<Rightarrow> string \<Rightarrow> string" where
  "strip_front tbl s =
     (if leading tbl s = 0 then s else strip_front tbl (drop (leading tbl s) s))"
  by pat_completeness auto

termination strip_front
proof (relation "measure (\<lambda>(tbl, s). length s)")
  show "wf (measure (\<lambda>(tbl, s). length s))" by simp
next
  fix tbl :: "string list" and s :: string
  assume pos: "leading tbl s \<noteq> 0"
  then obtain w where w: "find (\<lambda>w. take (length w) s = w) tbl = Some w" "leading tbl s = length w"
    by (auto simp: leading_def split: option.splits)
  from w(1) have "take (length w) s = w" by (auto simp: find_Some_iff)
  then have "length (take (length w) s) = length w" by simp
  then have "length w \<le> length s" by simp
  moreover from pos w(2) have "0 < length w" by simp
  ultimately have "length s - length w < length s" by arith
  with w(2) show "((tbl, drop (leading tbl s) s), (tbl, s)) \<in> measure (\<lambda>(tbl, s). length s)"
    by simp
qed

declare strip_front.simps [simp del]

definition strip :: "string \<Rightarrow> string" where
  "strip s = rev (strip_front (map rev py_whitespace) (rev (strip_front py_whitespace s)))"

text \<open>\<^verbatim>\<open>s.rstrip('/')\<close>.\<close>

definition rstrip_slash :: "string \<Rightarrow> string" where
  "rstrip_slash s = rev (dropWhile (\<lambda>c. c = CHR ''/'') (rev s))"

section \<open>The messages of the client\<close>

text \<open>
  The error texts of the source are Chinese; each constant below is the UTF-8 encoding of the
  literal of the source, with its meaning in English.
\<close>

text \<open>\<^verbatim>\<open>msg_not_connected\<close>: MCP connection not established.\<close>

definition msg_not_connected :: string where
  "msg_not_connected =
     ''MCP '' @
     [CHR 0xE8, CHR 0xBF, CHR 0x9E, CHR 0xE6, CHR 0x8E, CHR 0xA5, CHR 0xE6, CHR 0x9C, CHR 0xAA, CHR 0xE5, CHR 0xBB, CHR 0xBA, CHR 0xE7, CHR 0xAB, CHR 0x8B]"

text \<open>\<^verbatim>\<open>msg_server_error\<close>: MCP server returned an error: .\<close>

definition msg_server_error :: string where
  "msg_server_error =
     ''MCP'' @
     [CHR 0xE6, CHR 0x9C, CHR 0x8D, CHR 0xE5, CHR 0x8A, CHR 0xA1, CHR 0xE5, CHR 0x99, CHR 0xA8, CHR 0xE8, CHR 0xBF, CHR 0x94, CHR 0xE5, CHR 0x9B, CHR 0x9E, CHR 0xE9, CHR 0x94, CHR 0x99, CHR 0xE8, CHR 0xAF, CHR 0xAF] @
     '': ''"

text \<open>\<^verbatim>\<open>msg_unknown_error\<close>: unknown error.\<close>

definition msg_unknown_error :: string where
  "msg_unknown_error =
     [CHR 0xE6, CHR 0x9C, CHR 0xAA, CHR 0xE7, CHR 0x9F, CHR 0xA5, CHR 0xE9, CHR 0x94, CHR 0x99, CHR 0xE8, CHR 0xAF, CHR 0xAF]"

text \<open>\<^verbatim>\<open>msg_unparsable\<close>: unable to parse the MCP response.\<close>

definition msg_unparsable :: string where
  "msg_unparsable =
     [CHR 0xE6, CHR 0x97, CHR 0xA0, CHR 0xE6, CHR 0xB3, CHR 0x95, CHR 0xE8, CHR 0xA7, CHR 0xA3, CHR 0xE6, CHR 0x9E, CHR 0x90] @
     ''MCP'' @
     [CHR 0xE5, CHR 0x93, CHR 0x8D, CHR 0xE5, CHR 0xBA, CHR 0x94]"

text \<open>\<^verbatim>\<open>msg_timed_out\<close>: timed out waiting for the MCP response.\<close>

definition msg_timed_out :: string where
  "msg_timed_out =
     [CHR 0xE7, CHR 0xAD, CHR 0x89, CHR 0xE5, CHR 0xBE, CHR 0x85] @
     ''MCP'' @
     [CHR 0xE5, CHR 0x93, CHR 0x8D, CHR 0xE5, CHR 0xBA, CHR 0x94, CHR 0xE8, CHR 0xB6, CHR 0x85, CHR 0xE6, CHR 0x97, CHR 0xB6]"

text \<open>\<^verbatim>\<open>msg_request_timeout\<close>: the request to the MCP server timed out.\<close>

definition msg_request_timeout :: string where
  "msg_request_timeout =
     ''MCP'' @
     [CHR 0xE6, CHR 0x9C, CHR 0x8D, CHR 0xE5, CHR 0x8A, CHR 0xA1, CHR 0xE5, CHR 0x99, CHR 0xA8, CHR 0xE8, CHR 0xAF, CHR 0xB7, CHR 0xE6, CHR 0xB1, CHR 0x82, CHR 0xE8, CHR 0xB6, CHR 0x85, CHR 0xE6, CHR 0x97, CHR 0xB6]"

text \<open>\<^verbatim>\<open>msg_cannot_connect\<close>: cannot connect to the MCP server: .\<close>

definition msg_cannot_connect :: string where
  "msg_cannot_connect =
     [CHR 0xE6, CHR 0x97, CHR 0xA0, CHR 0xE6, CHR 0xB3, CHR 0x95, CHR 0xE8, CHR 0xBF, CHR 0x9E, CHR 0xE6, CHR 0x8E, CHR 0xA5, CHR 0xE5, CHR 0x88, CHR 0xB0] @
     ''MCP'' @
     [CHR 0xE6, CHR 0x9C, CHR 0x8D, CHR 0xE5, CHR 0x8A, CHR 0xA1, CHR 0xE5, CHR 0x99, CHR 0xA8] @
     '': ''"

text \<open>\<^verbatim>\<open>msg_call_failed\<close>: MCP call failed: .\<close>

definition msg_call_failed :: string where
  "msg_call_failed =
     ''MCP'' @
     [CHR 0xE8, CHR 0xB0, CHR 0x83, CHR 0xE7, CHR 0x94, CHR 0xA8, CHR 0xE5, CHR 0xA4, CHR 0xB1, CHR 0xE8, CHR 0xB4, CHR 0xA5] @
     '': ''"

text \<open>\<^verbatim>\<open>str(n)\<close> for an integer: its decimal digits, with a sign.\<close>

function digits :: "nat \<Rightarrow> string" where
  "digits n = (if n < 10 then [char_of (48 + n)] else digits (n div 10) @ [char_of (48 + n mod 10)])"
  by pat_completeness auto

termination
  by (relation "measure id") auto

declare digits.simps [simp del]

definition str_int :: "int \<Rightarrow> string" where
  "str_int i = (if i < 0 then CHR ''-'' # digits (nat (- i)) else digits (nat i))"

section \<open>The client and its event stream reader\<close>

text \<open>
  The fields of \<^verbatim>\<open>MCPWeatherClient\<close>. The field \<open>session\<close> is the history of the requests
  issued through \<^verbatim>\<open>self.session\<close>, in order, whether they succeeded or not.
\<close>

datatype http_request = GET string | POST string json

record client =
  server_url :: string
  message_endpoint :: "string option"
  response_queue :: "json list"
  session :: "http_request list"

text \<open>
  What \<^verbatim>\<open>response.iter_lines()\<close> yields: the bytes of a line, which \<^verbatim>\<open>line.decode('utf-8')\<close>
  either accepts or rejects with the given text.
\<close>

datatype wire_line = is_Decoded: Decoded string | Undecodable string

text \<open>
  One iteration of the loop of \<^verbatim>\<open>sse_listener\<close>, on the client and the local variable
  \<^verbatim>\<open>current_event\<close>. The decoder runs under a bare \<^verbatim>\<open>except\<close>, so its exception is
  dropped; the only exception that leaves the iteration is that of \<^verbatim>\<open>decode\<close>.
\<close>

fun sse_line :: "decoder \<Rightarrow> client \<times> string option \<Rightarrow> wire_line
    \<Rightarrow> py_exc + client \<times> string option" where
  "sse_line loads (c, current_event) (Undecodable msg) = Inl (PyExc UnicodeDecodeError msg)"
| "sse_line loads (c, current_event) (Decoded line_str) =
     Inr (if line_str = [] then (c, current_event)
          else if startswith line_str ''event: '' then (c, Some (strip (drop 7 line_str)))
          else if startswith line_str ''data: '' then
            (let data_str = drop 6 line_str in
             if current_event = Some ''endpoint'' then
               (c\<lparr>message_endpoint := Some data_str\<rparr>, None)
             else if current_event = Some ''message'' then
               (case loads data_str of
                  Inr data \<Rightarrow> (c\<lparr>response_queue := response_queue c @ [data]\<rparr>, None)
                | Inl e \<Rightarrow> (c, None))
             else (c, None))
          else (c, current_event))"

text \<open>
  The loop over the lines. An exception ends it; what the iterations before it wrote to the
  client stays written.
\<close>

fun sse_lines :: "decoder \<Rightarrow> client \<times> string option \<Rightarrow> wire_line list
    \<Rightarrow> (client \<times> string option) \<times> py_exc option" where
  "sse_lines loads st [] = (st, None)"
| "sse_lines loads st (l # ls) =
     (case sse_line loads st l of
        Inl e \<Rightarrow> (st, Some e)
      | Inr st' \<Rightarrow> sse_lines loads st' ls)"

text \<open>
  \<^verbatim>\<open>sse_listener\<close>: \<^verbatim>\<open>current_event\<close> starts as \<^verbatim>\<open>None\<close>; the exception, if any, is
  caught and printed. The result is the client as the listener leaves it.
\<close>

definition sse_listener :: "decoder \<Rightarrow> client \<Rightarrow> wire_line list \<Rightarrow> client" where
  "sse_listener loads c lines = fst (fst (sse_lines loads (c, None) lines))"

section \<open>The tool invocation gateway\<close>

definition failure :: "string \<Rightarrow> json" where
  "failure msg = JObj [(''success'', JBool False), (''error'', JStr msg)]"

text \<open>Lines 217 to 237 of the source: what is returned for the response that matches.\<close>

definition unwrap_response :: "decoder \<Rightarrow> json \<Rightarrow> py_exc + json" where
  "unwrap_response loads mcp_response =
     and_then (py_contains ''error'' mcp_response) (\<lambda>has_error.
       if has_error then
         and_then (getitem_str mcp_response ''error'') (\<lambda>err.
         and_then (dict_get err ''message'' (JStr msg_unknown_error)) (\<lambda>message.
           Inr (JObj [(''success'', JBool False), (''error'', message)])))
       else
         and_then (dict_get mcp_response ''result'' (JObj [])) (\<lambda>result.
         and_then (py_contains ''content'' result) (\<lambda>has_content.
         and_then (if has_content then
                     and_then (getitem_str result ''content'') (\<lambda>content.
                     and_then (py_len content) (\<lambda>n. Inr (0 < n)))
                   else Inr False) (\<lambda>guard.
           if guard then
             and_then (getitem_str result ''content'') (\<lambda>content.
             and_then (getitem_0 content) (\<lambda>content_item.
             and_then (dict_get content_item ''type'' JNull) (\<lambda>ty.
               if eq_str ty ''text'' then
                 and_then (dict_get content_item ''text'' (JStr ''{}'')) (json_loads loads)
               else Inr (failure msg_unparsable))))
           else Inr (failure msg_unparsable)))))"

text \<open>
  The body of the polling loop for a dequeued entry: \<open>Inr None\<close> when the identifier is
  another one and the loop goes on, \<open>Inr (Some r)\<close> when \<open>r\<close> is returned.
\<close>

definition check_response :: "decoder \<Rightarrow> string \<Rightarrow> json \<Rightarrow> py_exc + json option" where
  "check_response loads request_id mcp_response =
     and_then (dict_get mcp_response ''id'' JNull) (\<lambda>i.
       if eq_str i request_id then
         and_then (unwrap_response loads mcp_response) (\<lambda>r. Inr (Some r))
       else Inr None)"

text \<open>
  The loop of lines 211 to 244. The listener thread fills the queue while the loop runs, and
  the clock is read at every test of the loop condition: a tick \<open>(elapsed, arrived)\<close> is the
  value of \<^verbatim>\<open>time.time() - start_time\<close> at one test, with the entries the listener has put
  into the queue since the loop last looked at it. The caller is the only consumer. The
  result is what the loop returns or raises, the queue it leaves, and the entries it took
  off the queue, in order; \<open>None\<close> when the ticks end before the loop does.
\<close>

type_synonym tick = "rat \<times> json list"

fun poll :: "decoder \<Rightarrow> string \<Rightarrow> json list \<Rightarrow> tick list
    \<Rightarrow> ((py_exc + json) \<times> json list \<times> json list) option" where
  "poll loads request_id q [] = None"
| "poll loads request_id q ((elapsed, arrived) # ticks) =
     (let q1 = q @ arrived in
      if elapsed < 30 then
        (case q1 of
           [] \<Rightarrow> poll loads request_id [] ticks
         | mcp_response # q2 \<Rightarrow>
             (case check_response loads request_id mcp_response of
                Inl e \<Rightarrow> Some (Inl e, q2, [mcp_response])
              | Inr (Some r) \<Rightarrow> Some (Inr r, q2, [mcp_response])
              | Inr None \<Rightarrow>
                  map_option (\<lambda>(out, q', taken). (out, q', mcp_response # taken))
                    (poll loads request_id q2 ticks)))
      else Some (Inr (failure msg_timed_out), q1, []))"

text \<open>
  The same loop, looked at after some of its tests: the queue and the entries taken so far
  when the loop is still running after the tests given, that is when each of them was made
  within the timeout and found the queue empty or took an entry with another identifier;
  \<open>None\<close> when the loop has ended within them.
\<close>

fun still_polling :: "decoder \<Rightarrow> string \<Rightarrow> json list \<Rightarrow> tick list
    \<Rightarrow> (json list \<times> json list) option" where
  "still_polling loads request_id q [] = Some (q, [])"
| "still_polling loads request_id q ((elapsed, arrived) # ticks) =
     (let q1 = q @ arrived in
      if elapsed < 30 then
        (case q1 of
           [] \<Rightarrow> still_polling loads request_id [] ticks
         | mcp_response # q2 \<Rightarrow>
             (case check_response loads request_id mcp_response of
                Inr None \<Rightarrow>
                  map_option (\<lambda>(q', taken). (q', mcp_response # taken))
                    (still_polling loads request_id q2 ticks)
              | _ \<Rightarrow> None))
      else None)"

text \<open>
  What one call meets outside the program: the identifier \<^verbatim>\<open>str(uuid.uuid4())\<close>, the
  outcome of \<^verbatim>\<open>session.post\<close> (an exception, or the status code and the text of the
  response), and the ticks of its polling loop.
\<close>

record call_env =
  uuid4 :: string
  post_result :: "py_exc + int \<times> string"
  ticks :: "tick list"

text \<open>The request of lines 181 to 189.\<close>

definition tool_request :: "string \<Rightarrow> string \<Rightarrow> json \<Rightarrow> json" where
  "tool_request request_id tool_name arguments = JObj
     [(''jsonrpc'', JStr ''2.0''),
      (''id'', JStr request_id),
      (''method'', JStr ''tools/call''),
      (''params'', JObj [(''name'', JStr tool_name), (''arguments'', arguments)])]"

text \<open>The \<^verbatim>\<open>try\<close> block of \<^verbatim>\<open>_call_tool\<close>.\<close>

definition call_tool_try :: "decoder \<Rightarrow> client \<Rightarrow> call_env \<Rightarrow> string \<Rightarrow> json
    \<Rightarrow> ((py_exc + json) \<times> client \<times> json list) option" where
  "call_tool_try loads c env tool_name arguments =
     (case message_endpoint c of
        None \<Rightarrow> Some (Inr (failure msg_not_connected), c, [])
      | Some ep \<Rightarrow>
          (let endpoint = server_url c @ ep;
               request_id = uuid4 env;
               mcp_request = tool_request request_id tool_name arguments;
               c1 = c\<lparr>session := session c @ [POST endpoint mcp_request]\<rparr>
           in case post_result env of
                Inl e \<Rightarrow> Some (Inl e, c1, [])
              | Inr (status_code, text) \<Rightarrow>
                  if status_code \<noteq> 200 \<and> status_code \<noteq> 202 then
                    Some (Inr (failure
                      (msg_server_error @ str_int status_code @ '' - '' @ text)), c1, [])
                  else
                    map_option (\<lambda>(out, q', taken). (out, c1\<lparr>response_queue := q'\<rparr>, taken))
                      (poll loads request_id (response_queue c1) (ticks env))))"

text \<open>The three \<^verbatim>\<open>except\<close> clauses, in the order of the source.\<close>

definition call_tool_except :: "client \<Rightarrow> py_exc \<Rightarrow> json" where
  "call_tool_except c e =
     (if is_Timeout (exc_cls e) then failure msg_request_timeout
      else if is_ConnectionError (exc_cls e) then failure (msg_cannot_connect @ server_url c)
      else failure (msg_call_failed @ exc_str e))"

text \<open>
  \<^verbatim>\<open>_call_tool\<close>: the value returned, the client afterwards, and the entries taken off the
  queue.
\<close>

definition call_tool :: "decoder \<Rightarrow> client \<Rightarrow> call_env \<Rightarrow> string \<Rightarrow> json
    \<Rightarrow> (json \<times> client \<times> json list) option" where
  "call_tool loads c env tool_name arguments =
     map_option
       (\<lambda>(out, c', taken).
          (case out of Inl e \<Rightarrow> call_tool_except c' e | Inr r \<Rightarrow> r, c', taken))
       (call_tool_try loads c env tool_name arguments)"

section \<open>The typed call wrappers\<close>

text \<open>
  Both wrappers print, call the gateway, test \<^verbatim>\<open>result.get("success")\<close> to choose what to
  print, and return the result. Printing is left out; the test stays, for it can raise.
\<close>

definition query_current_weather :: "decoder \<Rightarrow> client \<Rightarrow> call_env \<Rightarrow> string
    \<Rightarrow> ((py_exc + json) \<times> client \<times> json list) option" where
  "query_current_weather loads c env city =
     map_option
       (\<lambda>(result, c', taken).
          (and_then (dict_get result ''success'' JNull) (\<lambda>ok. Inr result), c', taken))
       (call_tool loads c env ''query_current_weather'' (JObj [(''city'', JStr city)]))"

definition query_weather_forecast :: "decoder \<Rightarrow> client \<Rightarrow> call_env \<Rightarrow> string
    \<Rightarrow> ((py_exc + json) \<times> client \<times> json list) option" where
  "query_weather_forecast loads c env city =
     map_option
       (\<lambda>(result, c', taken).
          (and_then (dict_get result ''success'' JNull) (\<lambda>ok. Inr result), c', taken))
       (call_tool loads c env ''query_weather_forecast'' (JObj [(''city'', JStr city)]))"

section \<open>Session bootstrap and the process-wide client\<close>

text \<open>
  What the constructor meets outside the program: whether \<^verbatim>\<open>session.get\<close> of the stream
  raises, for every test of the condition of the loop that waits for the endpoint the
  elapsed time and the lines the listener has read since the test before, the outcome of
  the \<^verbatim>\<open>initialize\<close> request, and the ticks of the loop that waits for its response. The
  outcome of the last request, the notification, changes nothing: its response is not
  looked at, and an exception is caught and printed.
\<close>

record boot_env =
  get_result :: "py_exc option"
  sse_ticks :: "(rat \<times> wire_line list) list"
  init_post :: "py_exc + int \<times> string"
  init_ticks :: "tick list"

text \<open>
  Lines 81 to 84. The foreground writes nothing to the client while it waits, so at each
  test the client is what the listener has made of the lines read so far. The endpoint is
  tested before the clock.
\<close>

fun wait_endpoint :: "decoder \<Rightarrow> client \<Rightarrow> wire_line list \<Rightarrow> (rat \<times> wire_line list) list
    \<Rightarrow> client option" where
  "wait_endpoint loads c seen [] = None"
| "wait_endpoint loads c seen ((elapsed, lines) # rest) =
     (let c' = sse_listener loads c (seen @ lines) in
      if message_endpoint c' = None \<and> elapsed < 5 then
        wait_endpoint loads c (seen @ lines) rest
      else Some c')"

definition init_request :: json where
  "init_request = JObj
     [(''jsonrpc'', JStr ''2.0''),
      (''id'', JInt 1),
      (''method'', JStr ''initialize''),
      (''params'', JObj
         [(''protocolVersion'', JStr ''2024-11-05''),
          (''capabilities'', JObj [(''roots'', JObj [(''listChanged'', JBool False)])]),
          (''clientInfo'', JObj
             [(''name'', JStr ''mcp-weather-client''), (''version'', JStr ''1.0.0'')])])]"

definition initialized_notification :: json where
  "initialized_notification = JObj
     [(''jsonrpc'', JStr ''2.0''), (''method'', JStr ''notifications/initialized'')]"

text \<open>
  Lines 129 to 147, with the ticks of \<^const>\<open>poll\<close>: \<open>Inr True\<close> when the response with
  \<^verbatim>\<open>id == 1\<close> was taken off the queue, \<open>Inr False\<close> when the five seconds are over.
\<close>

fun await_init :: "json list \<Rightarrow> tick list \<Rightarrow> ((py_exc + bool) \<times> json list) option" where
  "await_init q [] = None"
| "await_init q ((elapsed, arrived) # rest) =
     (let q1 = q @ arrived in
      if elapsed < 5 then
        (case q1 of
           [] \<Rightarrow> await_init [] rest
         | init_response # q2 \<Rightarrow>
             (case dict_get init_response ''id'' JNull of
                Inl e \<Rightarrow> Some (Inl e, q2)
              | Inr i \<Rightarrow> if eq_int i 1 then Some (Inr True, q2) else await_init q2 rest))
      else Some (Inr False, q1))"

text \<open>\<^verbatim>\<open>_initialize_mcp\<close>. Every exception is caught and printed.\<close>

definition initialize_mcp :: "client \<Rightarrow> boot_env \<Rightarrow> client option" where
  "initialize_mcp c env =
     (let endpoint = server_url c @ (case message_endpoint c of None \<Rightarrow> ''None'' | Some ep \<Rightarrow> ep);
          c1 = c\<lparr>session := session c @ [POST endpoint init_request]\<rparr>
      in case init_post env of
           Inl e \<Rightarrow> Some c1
         | Inr (status_code, text) \<Rightarrow>
             if status_code = 200 \<or> status_code = 202 then
               (case await_init (response_queue c1) (init_ticks env) of
                  None \<Rightarrow> None
                | Some (Inr True, q') \<Rightarrow>
                    Some (c1\<lparr>response_queue := q',
                             session := session c1 @ [POST endpoint initialized_notification]\<rparr>)
                | Some (out, q') \<Rightarrow> Some (c1\<lparr>response_queue := q'\<rparr>))
             else Some c1)"

text \<open>
  \<^verbatim>\<open>__init__\<close> with \<^verbatim>\<open>_start_sse_connection\<close>. The listener thread issues the request for
  the stream; when that raises, it reads no line.
\<close>

definition MCPWeatherClient :: "decoder \<Rightarrow> string \<Rightarrow> boot_env \<Rightarrow> client option" where
  "MCPWeatherClient loads url env =
     (let c0 = \<lparr>server_url = rstrip_slash url, message_endpoint = None, response_queue = [],
                session = [GET (rstrip_slash url @ ''/sse'')]\<rparr>;
          heard = (case get_result env of
                     None \<Rightarrow> sse_ticks env
                   | Some e \<Rightarrow> map (\<lambda>(elapsed, lines). (elapsed, [])) (sse_ticks env))
      in case wait_endpoint loads c0 [] heard of
           None \<Rightarrow> None
         | Some c \<Rightarrow> if message_endpoint c = None then Some c else initialize_mcp c env)"

text \<open>
  \<^verbatim>\<open>get_mcp_client\<close>, on the global \<^verbatim>\<open>_mcp_client\<close>: the new value of the global and the
  instance returned.
\<close>

definition get_mcp_client :: "decoder \<Rightarrow> client option \<Rightarrow> string \<Rightarrow> boot_env
    \<Rightarrow> (client option \<times> client) option" where
  "get_mcp_client loads mcp_client url env =
     (case mcp_client of
        None \<Rightarrow> map_option (\<lambda>c. (Some c, c)) (MCPWeatherClient loads url env)
      | Some c \<Rightarrow> Some (Some c, c))"

section \<open>Notions used to state the properties\<close>

text \<open>A queue entry that is a JSON object whose \<^verbatim>\<open>id\<close> is not the given identifier.\<close>

fun other_message :: "string \<Rightarrow> json \<Rightarrow> bool" where
  "other_message request_id (JObj kvs) = (map_of kvs ''id'' \<noteq> Some (JStr request_id))"
| "other_message request_id v = False"

text \<open>
  A response to the given identifier, without an \<^verbatim>\<open>error\<close> member, whose result is an
  object whose \<^verbatim>\<open>content\<close> is a list that starts with an object of type \<^verbatim>\<open>"text"\<close>
  holding the given text.
\<close>

fun text_item :: "string \<Rightarrow> json \<Rightarrow> bool" where
  "text_item text (JArr (JObj item # rest)) =
     (map_of item ''type'' = Some (JStr ''text'') \<and> map_of item ''text'' = Some (JStr text))"
| "text_item text v = False"

fun text_result :: "string \<Rightarrow> json \<Rightarrow> bool" where
  "text_result text (JObj res) =
     (case map_of res ''content'' of None \<Rightarrow> False | Some content \<Rightarrow> text_item text content)"
| "text_result text v = False"

fun text_response :: "string \<Rightarrow> string \<Rightarrow> json \<Rightarrow> bool" where
  "text_response request_id text (JObj kvs) =
     (map_of kvs ''id'' = Some (JStr request_id) \<and> map_of kvs ''error'' = None \<and>
      (case map_of kvs ''result'' of None \<Rightarrow> False | Some result \<Rightarrow> text_result text result))"
| "text_response request_id text v = False"

text \<open>
  A result object that has no \<^verbatim>\<open>content\<close> key, or an empty \<^verbatim>\<open>content\<close> list, or a
  \<^verbatim>\<open>content\<close> list that starts with an object whose type is not \<^verbatim>\<open>"text"\<close>.
\<close>

fun textless_content :: "json \<Rightarrow> bool" where
  "textless_content (JArr []) = True"
| "textless_content (JArr (JObj item # rest)) = (map_of item ''type'' \<noteq> Some (JStr ''text''))"
| "textless_content v = False"

fun textless_result :: "json \<Rightarrow> bool" where
  "textless_result (JObj res) =
     (case map_of res ''content'' of None \<Rightarrow> True | Some content \<Rightarrow> textless_content content)"
| "textless_result v = False"

fun textless_response :: "string \<Rightarrow> json \<Rightarrow> bool" where
  "textless_response request_id (JObj kvs) =
     (map_of kvs ''id'' = Some (JStr request_id) \<and> map_of kvs ''error'' = None \<and>
      (case map_of kvs ''result'' of None \<Rightarrow> False | Some result \<Rightarrow> textless_result result))"
| "textless_response request_id v = False"

text \<open>
  The examples are evaluated with the values of \<^verbatim>\<open>json.loads\<close> on four texts; on the other
  texts of the examples, none of which is JSON, it raises.
\<close>

definition sample_loads :: decoder where
  \<open>sample_loads s =
     (if s = ''{"success": true, "city": "Beijing"}'' then
        Inr (JObj [(''success'', JBool True), (''city'', JStr ''Beijing'')])
      else if s = ''{"success": true, "city": "Shanghai"}'' then
        Inr (JObj [(''success'', JBool True), (''city'', JStr ''Shanghai'')])
      else if s = ''{}'' then Inr (JObj [])
      else if s = ''[]'' then Inr (JArr [])
      else Inl (PyExc JSONDecodeError ''Expecting value: line 1 column 1 (char 0)''))\<close>

section \<open>Examples\<close>

text \<open>A client whose session is established, and inputs for the calls evaluated below.\<close>

definition example_client :: client where
  "example_client = \<lparr>server_url = ''http://localhost:8001'',
     message_endpoint = Some ''/messages/?session_id=abc123'',
     response_queue = [], session = [GET ''http://localhost:8001/sse'']\<rparr>"

definition progress_note :: json where
  "progress_note =
     JObj [(''jsonrpc'', JStr ''2.0''), (''method'', JStr ''notifications/progress'')]"

definition weather_args :: json where
  "weather_args = JObj [(''city'', JStr ''Beijing'')]"

text \<open>No response comes: a notification at the first test, and the clock at 30 at the second.\<close>

definition silent_env :: call_env where
  "silent_env = \<lparr>uuid4 = ''id-1'', post_result = Inr (202, ''Accepted''),
     ticks = [(0, [progress_note]), (30, [])]\<rparr>"

text \<open>The text of the tool result of section 8 of the specification, and the response that
  carries a text as \<^verbatim>\<open>result.content[0].text\<close>.\<close>

definition beijing_text :: string where
  \<open>beijing_text = ''{"success": true, "city": "Beijing"}''\<close>

definition text_reply :: "string \<Rightarrow> string \<Rightarrow> json" where
  "text_reply request_id txt = JObj
     [(''jsonrpc'', JStr ''2.0''), (''id'', JStr request_id),
      (''result'', JObj
         [(''content'', JArr [JObj [(''type'', JStr ''text''), (''text'', JStr txt)]])])]"

text \<open>
  A client whose queue holds a notification left by an earlier call, and a call whose
  response comes at the test made at 29.9.
\<close>

definition waiting_client :: client where
  "waiting_client = example_client\<lparr>response_queue := [progress_note]\<rparr>"

definition late_env :: call_env where
  "late_env = \<lparr>uuid4 = ''id-1'', post_result = Inr (202, ''Accepted''),
     ticks = [(0, []), (299 / 10, [text_reply ''id-1'' beijing_text]), (30, [])]\<rparr>"

text \<open>Tests of the loop every tenth of a second, during which nothing arrives.\<close>

definition idle_ticks :: "nat \<Rightarrow> tick list" where
  "idle_ticks n = map (\<lambda>i. (of_nat i / 10, [])) [0..<n]"

text \<open>
  The response comes at the test made at 29.9, behind a notification; the test after it
  is made at 30.
\<close>

definition crowded_env :: call_env where
  "crowded_env = \<lparr>uuid4 = ''id-1'', post_result = Inr (202, ''Accepted''),
     ticks = idle_ticks 299 @
       [(299 / 10, [progress_note, text_reply ''id-1'' beijing_text]), (30, [])]\<rparr>"

text \<open>
  The server sends a JSON list where a message is expected.
\<close>

definition batch_env :: call_env where
  "batch_env = \<lparr>uuid4 = ''id-1'', post_result = Inr (202, ''Accepted''),
     ticks = [(0, [JArr []]), (30, [])]\<rparr>"

text \<open>
  A response whose result is \<^verbatim>\<open>null\<close>, and a call that it answers at once.
\<close>

definition null_reply :: "string \<Rightarrow> json" where
  "null_reply request_id = JObj
     [(''jsonrpc'', JStr ''2.0''), (''id'', JStr request_id), (''result'', JNull)]"

definition null_env :: call_env where
  "null_env = \<lparr>uuid4 = ''id-1'', post_result = Inr (202, ''Accepted''),
     ticks = [(0, [null_reply ''id-1''])]\<rparr>"

text \<open>A response whose \<^verbatim>\<open>content\<close> list is empty, and a call that it answers at once.\<close>

definition empty_reply :: "string \<Rightarrow> json" where
  "empty_reply request_id = JObj
     [(''jsonrpc'', JStr ''2.0''), (''id'', JStr request_id),
      (''result'', JObj [(''content'', JArr [])])]"

definition empty_env :: call_env where
  "empty_env = \<lparr>uuid4 = ''id-1'', post_result = Inr (200, ''OK''),
     ticks = [(0, [empty_reply ''id-1'']), (1 / 10, [])]\<rparr>"

text \<open>The tool result is the JSON text of an empty list.\<close>

definition list_env :: call_env where
  "list_env = \<lparr>uuid4 = ''id-1'', post_result = Inr (202, ''Accepted''),
     ticks = [(0, [text_reply ''id-1'' ''[]''])]\<rparr>"

text \<open>
  Two calls, one after the other. The response to the first comes at its first test behind
  a notification, and another notification at its second test; the response to the second
  comes at the test made at 29.9.
\<close>

definition shanghai_text :: string where
  \<open>shanghai_text = ''{"success": true, "city": "Shanghai"}''\<close>

definition first_env :: call_env where
  "first_env = \<lparr>uuid4 = ''id-1'', post_result = Inr (202, ''Accepted''),
     ticks = [(0, [progress_note, text_reply ''id-1'' beijing_text]), (1 / 10, [progress_note])]\<rparr>"

definition second_env :: call_env where
  "second_env = \<lparr>uuid4 = ''id-2'', post_result = Inr (202, ''Accepted''),
     ticks = [(0, []), (299 / 10, [text_reply ''id-2'' shanghai_text]), (30, [])]\<rparr>"

definition shanghai_args :: json where
  "shanghai_args = JObj [(''city'', JStr ''Shanghai'')]"

definition after_first :: client where
  "after_first = example_client\<lparr>session := session example_client @
       [POST (server_url example_client @ ''/messages/?session_id=abc123'')
          (tool_request ''id-1'' ''query_current_weather'' weather_args)],
     response_queue := [progress_note]\<rparr>"

definition after_crowded :: client where
  "after_crowded = example_client\<lparr>session := session example_client @
       [POST (server_url example_client @ ''/messages/?session_id=abc123'')
          (tool_request ''id-1'' ''query_current_weather'' weather_args)],
     response_queue := [text_reply ''id-1'' beijing_text]\<rparr>"

text \<open>A client as the constructor makes it, before the listener has read a line.\<close>

definition fresh_client :: client where
  "fresh_client = \<lparr>server_url = ''http://localhost:8001'', message_endpoint = None,
     response_queue = [], session = [GET ''http://localhost:8001/sse'']\<rparr>"

text \<open>
  A bootstrap in which the server sends the endpoint and answers the \<^verbatim>\<open>initialize\<close>
  request, the client it makes, and a bootstrap in which the server cannot be reached.
\<close>

definition init_reply :: json where
  "init_reply = JObj [(''jsonrpc'', JStr ''2.0''), (''id'', JInt 1), (''result'', JObj [])]"

definition example_boot :: boot_env where
  "example_boot = \<lparr>get_result = None,
     sse_ticks = [(0, []),
       (1 / 10, [Decoded ''event: endpoint'', Decoded ''data: /messages/?session_id=abc123''])],
     init_post = Inr (202, ''Accepted''),
     init_ticks = [(0, []), (1 / 10, [init_reply])]\<rparr>"

definition dead_boot :: boot_env where
  "dead_boot = \<lparr>get_result = Some (PyExc ConnectionError ''Connection refused''),
     sse_ticks = [(5, [])], init_post = Inl (PyExc ConnectionError ''Connection refused''),
     init_ticks = []\<rparr>"

definition booted_client :: client where
  "booted_client = \<lparr>server_url = ''http://localhost:8001'',
     message_endpoint = Some ''/messages/?session_id=abc123'',
     response_queue = [],
     session = [GET ''http://localhost:8001/sse'',
       POST ''http://localhost:8001/messages/?session_id=abc123'' init_request,
       POST ''http://localhost:8001/messages/?session_id=abc123'' initialized_notification]\<rparr>"

section \<open>The polling loop\<close>

lemma eq_str_iff: "eq_str v s = (v = JStr s)"
  by (cases v) auto

lemma and_then_Inr_iff:
  "(and_then x f = Inr y) = (\<exists>v. x = Inr v \<and> f v = Inr y)"
  by (cases x) auto

lemma check_response_None_iff:
  "(check_response loads rid m = Inr None) = other_message rid m"
proof (cases m)
  case (JObj kvs)
  show ?thesis
  proof (cases "map_of kvs ''id''")
    case None
    with JObj show ?thesis by (simp add: check_response_def)
  next
    case (Some i)
    with JObj show ?thesis
      by (auto simp: check_response_def eq_str_iff and_then_Inr_iff)
  qed
qed (simp_all add: check_response_def)

lemma poll_returns:
  "\<exists>t\<in>set ts. 30 \<le> fst t \<Longrightarrow> \<exists>r. poll loads rid q ts = Some r"
proof (induction ts arbitrary: q)
  case Nil
  then show ?case by simp
next
  case (Cons t ts)
  obtain e a where t: "t = (e, a)" by (cases t)
  show ?case
  proof (cases "e < 30")
    case False
    then show ?thesis by (simp add: t)
  next
    case True
    with Cons.prems t have ex: "\<exists>t\<in>set ts. 30 \<le> fst t" by auto
    from Cons.IH[OF ex] show ?thesis using True t
      by (fastforce simp: Let_def split: list.splits sum.splits option.splits)
  qed
qed

text \<open>
  What the loop took, followed by what it leaves, is the old queue followed by the arrivals
  of the ticks it used: an entry taken off the queue is not put back.
\<close>

lemma poll_conserves:
  "poll loads rid q ts = Some (out, q', taken) \<Longrightarrow>
     \<exists>n. taken @ q' = q @ concat (map snd (take n ts))"
proof (induction ts arbitrary: q out q' taken)
  case Nil
  then show ?case by simp
next
  case (Cons t ts)
  obtain e a where t: "t = (e, a)" by (cases t)
  show ?case
  proof (cases "e < 30")
    case False
    with Cons.prems t have "taken = []" "q' = q @ a" by auto
    then have "taken @ q' = q @ concat (map snd (take 1 (t # ts)))" by (simp add: t)
    then show ?thesis by blast
  next
    case True
    show ?thesis
    proof (cases "q @ a")
      case Nil
      with Cons.prems True t have "poll loads rid [] ts = Some (out, q', taken)" by simp
      from Cons.IH[OF this] obtain n where "taken @ q' = [] @ concat (map snd (take n ts))" by blast
      with Nil have "taken @ q' = q @ concat (map snd (take (Suc n) (t # ts)))" by (simp add: t)
      then show ?thesis by blast
    next
      case (Cons m q2)
      show ?thesis
      proof (cases "check_response loads rid m")
        case (Inl x)
        with Cons.prems True t Cons have "taken = [m]" "q' = q2" by auto
        with Cons have "taken @ q' = q @ concat (map snd (take 1 (t # ts)))" by (simp add: t)
        then show ?thesis by blast
      next
        case (Inr r)
        show ?thesis
        proof (cases r)
          case (Some v)
          with Inr Cons.prems True t Cons have "taken = [m]" "q' = q2" by auto
          with Cons have "taken @ q' = q @ concat (map snd (take 1 (t # ts)))" by (simp add: t)
          then show ?thesis by blast
        next
          case None
          with Inr Cons.prems True t Cons obtain taken' where
            p: "poll loads rid q2 ts = Some (out, q', taken')" and tk: "taken = m # taken'"
            by auto
          from Cons.IH[OF p] obtain n where "taken' @ q' = q2 @ concat (map snd (take n ts))" by blast
          with tk Cons have "taken @ q' = q @ concat (map snd (take (Suc n) (t # ts)))"
            by (simp add: t)
          then show ?thesis by blast
        qed
      qed
    qed
  qed
qed


lemma poll_only_others:
  "poll loads rid q ts = Some (out, q', taken) \<Longrightarrow> \<forall>m\<in>set taken. other_message rid m \<Longrightarrow>
     out = Inr (failure msg_timed_out)"
proof (induction ts arbitrary: q taken)
  case Nil
  then show ?case by simp
next
  case (Cons t ts)
  obtain e a where t: "t = (e, a)" by (cases t)
  show ?case
  proof (cases "e < 30")
    case False
    with Cons.prems(1) t show ?thesis by auto
  next
    case True
    show ?thesis
    proof (cases "q @ a")
      case Nil
      with Cons.prems(1) True t have "poll loads rid [] ts = Some (out, q', taken)" by simp
      from Cons.IH[OF this Cons.prems(2)] show ?thesis .
    next
      case (Cons m q2)
      note qa = this
      show ?thesis
      proof (cases "other_message rid m")
        case True
        then have "check_response loads rid m = Inr None" by (simp add: check_response_None_iff)
        with Cons.prems(1) \<open>e < 30\<close> t qa obtain taken' where
          p: "poll loads rid q2 ts = Some (out, q', taken')" and tk: "taken = m # taken'"
          by auto
        from tk Cons.prems(2) have "\<forall>m\<in>set taken'. other_message rid m" by simp
        from Cons.IH[OF p this] show ?thesis .
      next
        case False
        then have ne: "check_response loads rid m \<noteq> Inr None" by (simp add: check_response_None_iff)
        with Cons.prems(1) \<open>e < 30\<close> t qa have "taken = [m]"
          by (auto split: sum.splits option.splits)
        with Cons.prems(2) False show ?thesis by simp
      qed
    qed
  qed
qed

text \<open>
  What the loop has taken while it is still running, followed by its queue, is the queue
  it found followed by what arrived; the entries taken are messages with another
  identifier.
\<close>

lemma still_polling_conserves:
  "still_polling loads rid q pre = Some (q', taken) \<Longrightarrow> taken @ q' = q @ concat (map snd pre)"
proof (induction pre arbitrary: q taken)
  case Nil
  then show ?case by simp
next
  case (Cons t pre)
  obtain e a where t: "t = (e, a)" by (cases t)
  from Cons.prems t have e: "e < 30" by (auto split: if_splits)
  show ?case
  proof (cases "q @ a")
    case Nil
    with Cons.prems t e have "still_polling loads rid [] pre = Some (q', taken)" by simp
    from Cons.IH[OF this] Nil t show ?thesis by simp
  next
    case (Cons x q2)
    note qa = this
    from Cons.prems t e qa obtain taken' where
      p: "still_polling loads rid q2 pre = Some (q', taken')" and tk: "taken = x # taken'"
      by (auto split: sum.splits option.splits)
    from Cons.IH[OF p] have "taken' @ q' = q2 @ concat (map snd pre)" .
    with tk qa t show ?thesis by (metis append.assoc append_Cons concat.simps(2) list.map(2) snd_conv)
  qed
qed

lemma still_polling_others:
  "still_polling loads rid q pre = Some (q', taken) \<Longrightarrow> \<forall>x\<in>set taken. other_message rid x"
proof (induction pre arbitrary: q taken)
  case Nil
  then show ?case by simp
next
  case (Cons t pre)
  obtain e a where t: "t = (e, a)" by (cases t)
  from Cons.prems t have e: "e < 30" by (auto split: if_splits)
  show ?case
  proof (cases "q @ a")
    case Nil
    with Cons.prems t e have "still_polling loads rid [] pre = Some (q', taken)" by simp
    from Cons.IH[OF this] show ?thesis .
  next
    case (Cons x q2)
    note qa = this
    from Cons.prems t e qa obtain taken' where
      p: "still_polling loads rid q2 pre = Some (q', taken')" and tk: "taken = x # taken'"
      and x: "check_response loads rid x = Inr None"
      by (auto split: sum.splits option.splits)
    from x have "other_message rid x" by (simp add: check_response_None_iff)
    with Cons.IH[OF p] tk show ?thesis by simp
  qed
qed

text \<open>
  The loop goes on from the state it is in after the tests \<open>pre\<close>.
\<close>

lemma poll_after:
  "still_polling loads rid q pre = Some (q', taken) \<Longrightarrow>
     poll loads rid q (pre @ rest) =
       map_option (\<lambda>(out, q'', taken'). (out, q'', taken @ taken')) (poll loads rid q' rest)"
proof (induction pre arbitrary: q taken)
  case Nil
  then show ?case by (cases "poll loads rid q' rest") auto
next
  case (Cons t pre)
  obtain e a where t: "t = (e, a)" by (cases t)
  from Cons.prems t have e: "e < 30" by (auto split: if_splits)
  show ?case
  proof (cases "q @ a")
    case Nil
    with Cons.prems t e have "still_polling loads rid [] pre = Some (q', taken)" by simp
    from Cons.IH[OF this] Nil t e show ?thesis by simp
  next
    case (Cons x q2)
    note qa = this
    from Cons.prems t e qa obtain taken' where
      p: "still_polling loads rid q2 pre = Some (q', taken')" and tk: "taken = x # taken'"
      and x: "check_response loads rid x = Inr None"
      by (auto split: sum.splits option.splits)
    from Cons.IH[OF p] have "poll loads rid q2 (pre @ rest) =
       map_option (\<lambda>(out, q'', tk'). (out, q'', taken' @ tk')) (poll loads rid q' rest)" .
    with t e qa x tk show ?thesis
      by (cases "poll loads rid q' rest") auto
  qed
qed

text \<open>
  When the loop is still running after the tests \<open>pre\<close> and, at the next test, made
  within the timeout, finds the matching response at the head of the queue, it returns
  what the response unwraps to.
\<close>

lemma poll_reached:
  assumes "still_polling loads rid q pre = Some (q', ahead)"
    and "e < 30"
    and "q' @ a = m # behind"
    and "check_response loads rid m = Inr (Some r)"
  shows "poll loads rid q (pre @ (e, a) # post) = Some (Inr r, behind, ahead @ [m])"
proof -
  from assms(2-4) have "poll loads rid q' ((e, a) # post) = Some (Inr r, behind, [m])" by simp
  with poll_after[OF assms(1), of "(e, a) # post"] show ?thesis by simp
qed

section \<open>The gateway call\<close>

lemma call_tool_except_posted:
  "call_tool_except (c\<lparr>session := s, response_queue := q\<rparr>) e = call_tool_except c e"
  by (simp add: call_tool_except_def)

text \<open>Once the request is accepted, the call is its polling loop.\<close>

lemma call_tool_polling:
  assumes "message_endpoint c = Some ep"
    and "post_result env = Inr (status, body)"
    and "status = 200 \<or> status = 202"
  shows "call_tool loads c env tool_name arguments =
     map_option
       (\<lambda>(out, q', taken).
          (case out of Inl e \<Rightarrow> call_tool_except c e | Inr r \<Rightarrow> r,
           c\<lparr>session := session c @
                [POST (server_url c @ ep) (tool_request (uuid4 env) tool_name arguments)],
              response_queue := q'\<rparr>,
           taken))
       (poll loads (uuid4 env) (response_queue c) (ticks env))"
proof -
  have tried: "call_tool_try loads c env tool_name arguments =
      map_option
        (\<lambda>(out, q', taken).
           (out,
            c\<lparr>session := session c @
                 [POST (server_url c @ ep) (tool_request (uuid4 env) tool_name arguments)],
               response_queue := q'\<rparr>,
            taken))
        (poll loads (uuid4 env) (response_queue c) (ticks env))"
    using assms by (auto simp: call_tool_try_def Let_def)
  show ?thesis
  proof (cases "poll loads (uuid4 env) (response_queue c) (ticks env)")
    case None
    then show ?thesis by (simp add: call_tool_def tried)
  next
    case (Some res)
    obtain out q' taken where "res = (out, q', taken)" by (cases res)
    with Some show ?thesis
      by (cases out) (simp_all add: call_tool_def tried call_tool_except_posted)
  qed
qed

lemma call_tool_reaches:
  assumes "message_endpoint c = Some ep"
    and "post_result env = Inr (status, body)"
    and "status = 200 \<or> status = 202"
    and "ticks env = pre @ (e, a) # post"
    and "still_polling loads (uuid4 env) (response_queue c) pre = Some (q, ahead)"
    and "e < 30"
    and "q @ a = m # behind"
    and "check_response loads (uuid4 env) m = Inr (Some r)"
  shows "call_tool loads c env tool_name arguments =
           Some (r,
                 c\<lparr>session := session c @
                      [POST (server_url c @ ep) (tool_request (uuid4 env) tool_name arguments)],
                    response_queue := behind\<rparr>,
                 ahead @ [m])"
proof -
  from poll_reached[OF assms(5-8), of post] assms(4)
  have "poll loads (uuid4 env) (response_queue c) (ticks env) = Some (Inr r, behind, ahead @ [m])"
    by simp
  with call_tool_polling[OF assms(1-3), of loads tool_name arguments] show ?thesis by simp
qed

section \<open>The call before the session is established\<close>

text \<open>
  Claim C5. A gateway call made while the message endpoint of the session is still unknown
  returns the mapping with \<^verbatim>\<open>success\<close> false and the connection-not-established error at
  once: the client it leaves is the client it found, so no request was added to the history
  of the session, and nothing was taken off the queue.
\<close>

theorem call_tool_not_connected:
  "message_endpoint c = None \<Longrightarrow>
     call_tool loads c env tool_name arguments =
       Some (JObj [(''success'', JBool False), (''error'', JStr msg_not_connected)], c, [])"
  by (simp add: call_tool_def call_tool_try_def failure_def)

theorem call_tool_not_connected_witness:
  "message_endpoint (example_client\<lparr>message_endpoint := None\<rparr>) = None \<and>
   call_tool sample_loads (example_client\<lparr>message_endpoint := None\<rparr>) silent_env
       ''query_current_weather'' weather_args =
     Some (JObj [(''success'', JBool False), (''error'', JStr msg_not_connected)],
           example_client\<lparr>message_endpoint := None\<rparr>, [])"
  using call_tool_not_connected [of "example_client\<lparr>message_endpoint := None\<rparr>" sample_loads
      silent_env "''query_current_weather''" weather_args]
  by simp

section \<open>The request that the server refuses\<close>

text \<open>
  Claim C6. When the POST to the message endpoint yields a status other than 200 and 202,
  the call returns the mapping with \<^verbatim>\<open>success\<close> false and an error that holds the status
  and the body of the response. The queue of the client is the one it found and nothing was
  taken off it, whatever the ticks are: the loop was not entered.
\<close>

theorem call_tool_bad_status:
  assumes "message_endpoint c = Some ep"
    and "post_result env = Inr (status, body)"
    and "status \<noteq> 200" and "status \<noteq> 202"
  shows "call_tool loads c env tool_name arguments =
     Some (JObj [(''success'', JBool False),
                 (''error'', JStr (msg_server_error @ str_int status @ '' - '' @ body))],
           c\<lparr>session := session c @
                [POST (server_url c @ ep) (tool_request (uuid4 env) tool_name arguments)]\<rparr>,
           [])"
  using assms by (simp add: call_tool_def call_tool_try_def failure_def)

theorem call_tool_bad_status_witness:
  "message_endpoint example_client = Some ''/messages/?session_id=abc123'' \<and>
   (500::int) \<noteq> 200 \<and> (500::int) \<noteq> 202 \<and>
   call_tool sample_loads example_client
       \<lparr>uuid4 = ''id-1'', post_result = Inr (500, ''Internal Server Error''),
        ticks = [(0, [progress_note])]\<rparr>
       ''query_current_weather'' weather_args =
     Some (JObj [(''success'', JBool False),
                 (''error'', JStr (msg_server_error @ str_int 500 @ '' - '' @
                    ''Internal Server Error''))],
           example_client\<lparr>session := session example_client @
                [POST (server_url example_client @ ''/messages/?session_id=abc123'')
                   (tool_request ''id-1'' ''query_current_weather'' weather_args)]\<rparr>,
           [])"
  using call_tool_bad_status [of example_client "''/messages/?session_id=abc123''"
      "\<lparr>uuid4 = ''id-1'', post_result = Inr (500, ''Internal Server Error''),
        ticks = [(0, [progress_note])]\<rparr>" 500 "''Internal Server Error''"
      sample_loads "''query_current_weather''" weather_args]
  by (simp add: example_client_def)

section \<open>The call that no response answers\<close>

lemma silent_taken:
  "map_option (\<lambda>(r, c', taken). taken)
     (call_tool sample_loads example_client silent_env ''query_current_weather'' weather_args) =
   Some [progress_note]"
  by (simp add: call_tool_def call_tool_try_def silent_env_def example_client_def
        check_response_def progress_note_def Let_def)

text \<open>
  Claim C7, amended. A gateway call that has posted its request and whose clock reaches the
  timeout of 30 returns; when every entry it took off the queue is a message, that is a
  JSON object, with another \<^verbatim>\<open>id\<close>, so that no entry with the matching \<^verbatim>\<open>id\<close> was
  dequeued within the timeout, what it returns is the mapping with \<^verbatim>\<open>success\<close> false and
  the response-timed-out error.
\<close>

theorem call_tool_times_out:
  assumes "message_endpoint c = Some ep"
    and "post_result env = Inr (status, body)"
    and "status = 200 \<or> status = 202"
    and "\<exists>t\<in>set (ticks env). 30 \<le> fst t"
  shows "\<exists>r c' taken. call_tool loads c env tool_name arguments = Some (r, c', taken) \<and>
           ((\<forall>m\<in>set taken. other_message (uuid4 env) m) \<longrightarrow>
              r = JObj [(''success'', JBool False), (''error'', JStr msg_timed_out)])"
proof -
  from poll_returns[OF assms(4)] obtain out q' taken where
    p: "poll loads (uuid4 env) (response_queue c) (ticks env) = Some (out, q', taken)"
    by (metis prod_cases3)
  have "(\<forall>m\<in>set taken. other_message (uuid4 env) m) \<longrightarrow> out = Inr (failure msg_timed_out)"
    using poll_only_others[OF p] by blast
  with p call_tool_polling[OF assms(1-3), of loads tool_name arguments] show ?thesis
    by (auto simp: failure_def)
qed

theorem call_tool_times_out_witness:
  "message_endpoint example_client = Some ''/messages/?session_id=abc123'' \<and>
   post_result silent_env = Inr (202, ''Accepted'') \<and>
   (\<exists>t\<in>set (ticks silent_env). 30 \<le> fst t) \<and>
   other_message (uuid4 silent_env) progress_note \<and>
   (\<exists>c'. call_tool sample_loads example_client silent_env ''query_current_weather'' weather_args =
      Some (JObj [(''success'', JBool False), (''error'', JStr msg_timed_out)], c',
            [progress_note]))"
proof -
  have h1: "message_endpoint example_client = Some ''/messages/?session_id=abc123''"
    by (simp add: example_client_def)
  have h2: "post_result silent_env = Inr (202, ''Accepted'')" by (simp add: silent_env_def)
  have h3: "(202::int) = 200 \<or> (202::int) = 202" by simp
  have h4: "\<exists>t\<in>set (ticks silent_env). 30 \<le> fst t" by (simp add: silent_env_def)
  have h5: "other_message (uuid4 silent_env) progress_note"
    by (simp add: silent_env_def progress_note_def)
  from call_tool_times_out [OF h1 h2 h3 h4, of sample_loads "''query_current_weather''" weather_args]
  obtain r c' taken where
    eq: "call_tool sample_loads example_client silent_env ''query_current_weather'' weather_args =
           Some (r, c', taken)"
    and imp: "(\<forall>m\<in>set taken. other_message (uuid4 silent_env) m) \<longrightarrow>
           r = JObj [(''success'', JBool False), (''error'', JStr msg_timed_out)]"
    by blast
  from eq silent_taken have tk: "taken = [progress_note]" by simp
  with imp h5 have "r = JObj [(''success'', JBool False), (''error'', JStr msg_timed_out)]"
    by simp
  with eq tk h1 h2 h4 h5 show ?thesis by simp
qed

text \<open>
  Claim C7 as it is stated fails. The reader enqueues whatever \<^verbatim>\<open>json.loads\<close> returns;
  when the loop takes a JSON list off the queue, \<^verbatim>\<open>mcp_response.get("id")\<close> raises
  \<^verbatim>\<open>AttributeError\<close>, the last \<^verbatim>\<open>except\<close> clause catches it, and the call returns the
  call-failed mapping at once: no entry with the matching \<^verbatim>\<open>id\<close> was dequeued, and the
  result is not the timed-out error.
\<close>

theorem times_out_counterexample:
  "call_tool sample_loads example_client batch_env ''query_current_weather'' weather_args =
     Some (JObj [(''success'', JBool False),
                 (''error'', JStr (msg_call_failed @
                    quoted ''list'' @ '' object has no attribute '' @ quoted ''get''))],
           example_client\<lparr>session := session example_client @
                [POST (server_url example_client @ ''/messages/?session_id=abc123'')
                   (tool_request ''id-1'' ''query_current_weather'' weather_args)],
              response_queue := []\<rparr>,
           [JArr []]) \<and>
   JObj [(''success'', JBool False),
         (''error'', JStr (msg_call_failed @
            quoted ''list'' @ '' object has no attribute '' @ quoted ''get''))] \<noteq>
   JObj [(''success'', JBool False), (''error'', JStr msg_timed_out)]"
proof -
  have h1: "message_endpoint example_client = Some ''/messages/?session_id=abc123''"
    by (simp add: example_client_def)
  have h2: "post_result batch_env = Inr (202, ''Accepted'')" by (simp add: batch_env_def)
  have h3: "(202::int) = 200 \<or> (202::int) = 202" by simp
  have p: "poll sample_loads (uuid4 batch_env) (response_queue example_client) (ticks batch_env) =
      Some (Inl (PyExc AttributeError
              (quoted ''list'' @ '' object has no attribute '' @ quoted ''get'')), [], [JArr []])"
    by (simp add: batch_env_def example_client_def check_response_def)
  have c: "call_tool sample_loads example_client batch_env ''query_current_weather'' weather_args =
     Some (JObj [(''success'', JBool False),
                 (''error'', JStr (msg_call_failed @
                    quoted ''list'' @ '' object has no attribute '' @ quoted ''get''))],
           example_client\<lparr>session := session example_client @
                [POST (server_url example_client @ ''/messages/?session_id=abc123'')
                   (tool_request ''id-1'' ''query_current_weather'' weather_args)],
              response_queue := []\<rparr>,
           [JArr []])"
    using call_tool_polling[OF h1 h2 h3, of sample_loads "''query_current_weather''" weather_args] p
    by (simp add: call_tool_except_def failure_def batch_env_def)
  have d: "msg_call_failed @ quoted ''list'' @ '' object has no attribute '' @ quoted ''get''
      \<noteq> msg_timed_out"
    by (simp add: msg_call_failed_def msg_timed_out_def)
  from c d show ?thesis by simp
qed

section \<open>The response that matches\<close>

lemma map_of_None_iff_notin: "(k \<in> fst ` set kvs) = (map_of kvs k \<noteq> None)"
  by (simp add: map_of_eq_None_iff)

lemma unwrap_text_response:
  assumes "text_response rid text m" and "loads text = Inr v"
  shows "unwrap_response loads m = Inr v"
proof -
  from assms(1) obtain kvs where m: "m = JObj kvs" by (cases m) auto
  from assms(1) m have noerr: "map_of kvs ''error'' = None" by simp
  from assms(1) m obtain result where res: "map_of kvs ''result'' = Some result"
    and tr: "text_result text result" by (auto split: option.splits)
  from tr obtain rkvs where r: "result = JObj rkvs" by (cases result) auto
  from tr r obtain content where ct: "map_of rkvs ''content'' = Some content"
    and ti: "text_item text content" by (auto split: option.splits)
  from ti obtain item rest where c: "content = JArr (JObj item # rest)"
    and ty: "map_of item ''type'' = Some (JStr ''text'')"
    and tx: "map_of item ''text'' = Some (JStr text)"
    by (cases content rule: textless_content.cases) auto
  from noerr have e: "''error'' \<notin> fst ` set kvs" by (simp add: map_of_eq_None_iff)
  from ct have k: "''content'' \<in> fst ` set rkvs" by (simp add: map_of_None_iff_notin)
  show ?thesis
    using m e res r k ct c ty tx assms(2)
    by (simp add: unwrap_response_def)
qed

lemma check_text_response:
  assumes "text_response rid text m" and "loads text = Inr v"
  shows "check_response loads rid m = Inr (Some v)"
proof -
  from assms(1) obtain kvs where m: "m = JObj kvs" and i: "map_of kvs ''id'' = Some (JStr rid)"
    by (cases m) auto
  from assms have "unwrap_response loads m = Inr v" by (rule unwrap_text_response)
  with m i show ?thesis
    by (simp add: check_response_def)
qed

lemma unwrap_textless_response:
  assumes "textless_response rid m"
  shows "unwrap_response loads m = Inr (failure msg_unparsable)"
proof -
  from assms obtain kvs where m: "m = JObj kvs" by (cases m) auto
  from assms m have noerr: "map_of kvs ''error'' = None" by simp
  from assms m obtain result where res: "map_of kvs ''result'' = Some result"
    and tr: "textless_result result" by (auto split: option.splits)
  from tr obtain rkvs where r: "result = JObj rkvs" by (cases result) auto
  from noerr have e: "''error'' \<notin> fst ` set kvs" by (simp add: map_of_eq_None_iff)
  show ?thesis
  proof (cases "map_of rkvs ''content''")
    case None
    then have "''content'' \<notin> fst ` set rkvs" by (simp add: map_of_eq_None_iff)
    with m e res r show ?thesis by (simp add: unwrap_response_def)
  next
    case (Some content)
    then have k: "''content'' \<in> fst ` set rkvs" by (simp add: map_of_None_iff_notin)
    from tr r Some have tc: "textless_content content" by simp
    show ?thesis
    proof (cases content rule: textless_content.cases)
      case 1
      with m e res r k Some show ?thesis by (simp add: unwrap_response_def)
    next
      case (2 item rest)
      with tc have "map_of item ''type'' \<noteq> Some (JStr ''text'')" by simp
      then have "\<not> eq_str (case map_of item ''type'' of None \<Rightarrow> JNull | Some v \<Rightarrow> v) ''text''"
        by (auto simp: eq_str_iff split: option.splits)
      with 2 m e res r k Some show ?thesis by (simp add: unwrap_response_def)
    qed (use tc in simp_all)
  qed
qed

lemma check_textless_response:
  assumes "textless_response rid m"
  shows "check_response loads rid m = Inr (Some (failure msg_unparsable))"
proof -
  from assms obtain kvs where m: "m = JObj kvs" and i: "map_of kvs ''id'' = Some (JStr rid)"
    by (cases m) auto
  from unwrap_textless_response[OF assms] m i show ?thesis
    by (simp add: check_response_def)
qed

lemma poll_idle:
  "\<forall>t\<in>set pre. fst t < 30 \<and> snd t = [] \<Longrightarrow>
     poll loads rid [] (pre @ rest) = poll loads rid [] rest"
  by (induction pre) auto

lemma idle_ticks_idle: "n \<le> 300 \<Longrightarrow> \<forall>t\<in>set (idle_ticks n). fst t < 30 \<and> snd t = []"
  by (auto simp: idle_ticks_def)

text \<open>
  Claim C1, amended. Let the request be accepted and let the polling loop reach the matching
  response within the timeout: after the tests \<open>pre\<close> the loop is still running, having
  taken only entries with another \<^verbatim>\<open>id\<close>, and at its next test, made before the 30 units
  are over, the response is the first entry of the queue. When the response has no
  \<^verbatim>\<open>error\<close> member and its \<^verbatim>\<open>result.content[0]\<close> has the type \<^verbatim>\<open>"text"\<close> and a text
  that \<^verbatim>\<open>json.loads\<close> decodes, the gateway returns the decoded value, unchanged; it has
  taken the entries before the response and the response, and leaves what was behind it.
\<close>

theorem call_tool_round_trip:
  assumes "message_endpoint c = Some ep"
    and "post_result env = Inr (status, body)"
    and "status = 200 \<or> status = 202"
    and "ticks env = pre @ (e, a) # post"
    and "still_polling loads (uuid4 env) (response_queue c) pre = Some (q, ahead)"
    and "e < 30"
    and "q @ a = m # behind"
    and "text_response (uuid4 env) txt m"
    and "loads txt = Inr v"
  shows "call_tool loads c env tool_name arguments =
           Some (v,
                 c\<lparr>session := session c @
                      [POST (server_url c @ ep) (tool_request (uuid4 env) tool_name arguments)],
                    response_queue := behind\<rparr>,
                 ahead @ [m])"
proof -
  from assms(8,9) have "check_response loads (uuid4 env) m = Inr (Some v)"
    by (rule check_text_response)
  with assms(1-7) show ?thesis by (rule call_tool_reaches)
qed

theorem call_tool_round_trip_witness:
  "message_endpoint waiting_client = Some ''/messages/?session_id=abc123'' \<and>
   post_result late_env = Inr (202, ''Accepted'') \<and>
   ticks late_env = [(0, [])] @ (299 / 10, [text_reply ''id-1'' beijing_text]) # [(30, [])] \<and>
   still_polling sample_loads (uuid4 late_env) (response_queue waiting_client) [(0, [])] =
     Some ([], [progress_note]) \<and>
   (299 / 10 :: rat) < 30 \<and>
   text_response (uuid4 late_env) beijing_text (text_reply ''id-1'' beijing_text) \<and>
   sample_loads beijing_text = Inr (JObj [(''success'', JBool True), (''city'', JStr ''Beijing'')]) \<and>
   call_tool sample_loads waiting_client late_env ''query_current_weather'' weather_args =
     Some (JObj [(''success'', JBool True), (''city'', JStr ''Beijing'')],
           waiting_client\<lparr>session := session waiting_client @
                [POST (server_url waiting_client @ ''/messages/?session_id=abc123'')
                   (tool_request (uuid4 late_env) ''query_current_weather'' weather_args)],
              response_queue := []\<rparr>,
           [progress_note] @ [text_reply ''id-1'' beijing_text])"
proof -
  have h1: "message_endpoint waiting_client = Some ''/messages/?session_id=abc123''"
    by (simp add: waiting_client_def example_client_def)
  have h2: "post_result late_env = Inr (202, ''Accepted'')" by (simp add: late_env_def)
  have h3: "(202::int) = 200 \<or> (202::int) = 202" by simp
  have h4: "ticks late_env =
      [(0, [])] @ (299 / 10, [text_reply ''id-1'' beijing_text]) # [(30, [])]"
    by (simp add: late_env_def)
  have h5: "still_polling sample_loads (uuid4 late_env) (response_queue waiting_client) [(0, [])] =
     Some ([], [progress_note])"
    by (simp add: late_env_def waiting_client_def check_response_def progress_note_def)
  have h6: "(299 / 10 :: rat) < 30" by simp
  have h7: "[] @ [text_reply ''id-1'' beijing_text] = text_reply ''id-1'' beijing_text # []"
    by simp
  have h8: "text_response (uuid4 late_env) beijing_text (text_reply ''id-1'' beijing_text)"
    by (simp add: late_env_def text_reply_def)
  have h9: "sample_loads beijing_text =
      Inr (JObj [(''success'', JBool True), (''city'', JStr ''Beijing'')])"
    by (simp add: sample_loads_def beijing_text_def)
  have "call_tool sample_loads waiting_client late_env ''query_current_weather'' weather_args =
     Some (JObj [(''success'', JBool True), (''city'', JStr ''Beijing'')],
           waiting_client\<lparr>session := session waiting_client @
                [POST (server_url waiting_client @ ''/messages/?session_id=abc123'')
                   (tool_request (uuid4 late_env) ''query_current_weather'' weather_args)],
              response_queue := []\<rparr>,
           [progress_note] @ [text_reply ''id-1'' beijing_text])"
    by (rule call_tool_round_trip [OF h1 h2 h3 h4 h5 h6 h7 h8]) (rule h9)
  with h1 h2 h4 h5 h6 h8 h9 show ?thesis by blast
qed

text \<open>The call of the crowded example, evaluated.\<close>

lemma crowded_call:
  "call_tool sample_loads example_client crowded_env tool_name weather_args =
     Some (JObj [(''success'', JBool False), (''error'', JStr msg_timed_out)],
           example_client\<lparr>session := session example_client @
                [POST (server_url example_client @ ''/messages/?session_id=abc123'')
                   (tool_request ''id-1'' tool_name weather_args)],
              response_queue := [text_reply ''id-1'' beijing_text]\<rparr>,
           [progress_note])"
proof -
  have h1: "message_endpoint example_client = Some ''/messages/?session_id=abc123''"
    by (simp add: example_client_def)
  have h2: "post_result crowded_env = Inr (202, ''Accepted'')" by (simp add: crowded_env_def)
  have h3: "(202::int) = 200 \<or> (202::int) = 202" by simp
  have idle: "\<forall>t\<in>set (idle_ticks 299). fst t < 30 \<and> snd t = []"
    by (rule idle_ticks_idle) simp
  have "poll sample_loads ''id-1'' []
          (idle_ticks 299 @ [(299 / 10, [progress_note, text_reply ''id-1'' beijing_text]), (30, [])]) =
        poll sample_loads ''id-1'' []
          [(299 / 10, [progress_note, text_reply ''id-1'' beijing_text]), (30, [])]"
    by (rule poll_idle[OF idle])
  also have "\<dots> = Some (Inr (failure msg_timed_out), [text_reply ''id-1'' beijing_text], [progress_note])"
    by (simp add: check_response_def progress_note_def)
  finally have p: "poll sample_loads (uuid4 crowded_env) (response_queue example_client)
      (ticks crowded_env) =
      Some (Inr (failure msg_timed_out), [text_reply ''id-1'' beijing_text], [progress_note])"
    by (simp add: crowded_env_def example_client_def)
  show ?thesis
    using call_tool_polling[OF h1 h2 h3, of sample_loads tool_name weather_args] p
    by (simp add: failure_def crowded_env_def)
qed

text \<open>
  Claim C1 as it is stated fails: the response is in the queue at the test made at 29.9,
  within the timeout, behind one notification. That test takes the notification, the loop
  sleeps, the next test is made at 30 and the call returns the timed-out error; the
  response stays in the queue.
\<close>

theorem round_trip_counterexample:
  "text_response (uuid4 crowded_env) beijing_text (text_reply ''id-1'' beijing_text) \<and>
   sample_loads beijing_text = Inr (JObj [(''success'', JBool True), (''city'', JStr ''Beijing'')]) \<and>
   ticks crowded_env ! 299 = (299 / 10, [progress_note, text_reply ''id-1'' beijing_text]) \<and>
   call_tool sample_loads example_client crowded_env ''query_current_weather'' weather_args =
     Some (JObj [(''success'', JBool False), (''error'', JStr msg_timed_out)],
           example_client\<lparr>session := session example_client @
                [POST (server_url example_client @ ''/messages/?session_id=abc123'')
                   (tool_request ''id-1'' ''query_current_weather'' weather_args)],
              response_queue := [text_reply ''id-1'' beijing_text]\<rparr>,
           [progress_note])"
proof -
  have c: "call_tool sample_loads example_client crowded_env ''query_current_weather'' weather_args =
     Some (JObj [(''success'', JBool False), (''error'', JStr msg_timed_out)],
           example_client\<lparr>session := session example_client @
                [POST (server_url example_client @ ''/messages/?session_id=abc123'')
                   (tool_request ''id-1'' ''query_current_weather'' weather_args)],
              response_queue := [text_reply ''id-1'' beijing_text]\<rparr>,
           [progress_note])"
    by (rule crowded_call)
  have l: "length (idle_ticks 299) = 299" by (simp add: idle_ticks_def)
  have n: "ticks crowded_env ! 299 = (299 / 10, [progress_note, text_reply ''id-1'' beijing_text])"
    by (simp add: crowded_env_def nth_append l)
  have t: "text_response (uuid4 crowded_env) beijing_text (text_reply ''id-1'' beijing_text)"
    by (simp add: crowded_env_def text_reply_def)
  have s: "sample_loads beijing_text =
      Inr (JObj [(''success'', JBool True), (''city'', JStr ''Beijing'')])"
    by (simp add: sample_loads_def beijing_text_def)
  from t s n c show ?thesis by blast
qed

section \<open>The response without a text\<close>

lemma and_then_Inl_iff:
  "(and_then x f = Inl e) = (x = Inl e \<or> (\<exists>v. x = Inr v \<and> f v = Inl e))"
  by (cases x) auto

lemma getitem_0_guarded:
  "py_len content = Inr n \<Longrightarrow> 0 < n \<Longrightarrow> getitem_0 content = Inl e \<Longrightarrow> exc_cls e \<noteq> IndexError"
  by (cases content rule: getitem_0.cases) auto

lemma py_contains_exc: "py_contains k v = Inl e \<Longrightarrow> exc_cls e = TypeError"
  by (cases v) auto

lemma getitem_str_exc: "getitem_str v k = Inl e \<Longrightarrow> exc_cls e = KeyError \<or> exc_cls e = TypeError"
  by (cases v) (auto split: option.splits)

lemma dict_get_exc: "dict_get v k d = Inl e \<Longrightarrow> exc_cls e = AttributeError"
  by (cases v) auto

lemma py_len_exc: "py_len v = Inl e \<Longrightarrow> exc_cls e = TypeError"
  by (cases v) auto

lemma json_loads_exc:
  "json_loads loads v = Inl e \<Longrightarrow> exc_cls e = TypeError \<or> (\<exists>s. loads s = Inl e)"
  by (cases v) auto

text \<open>
  The index into \<^verbatim>\<open>content\<close> is guarded by the test of its length: whatever the response
  is, the unwrapping raises no \<^verbatim>\<open>IndexError\<close> of its own.
\<close>

lemma unwrap_response_no_IndexError:
  assumes loads: "\<And>s e. loads s = Inl e \<Longrightarrow> exc_cls e \<noteq> IndexError"
    and raised: "unwrap_response loads m = Inl e"
  shows "exc_cls e \<noteq> IndexError"
  using raised unfolding unwrap_response_def
  by (auto simp: and_then_Inl_iff and_then_Inr_iff split: if_splits
      dest!: py_contains_exc getitem_str_exc dict_get_exc py_len_exc json_loads_exc
      dest: getitem_0_guarded loads)

text \<open>
  Claim C9, amended. Let the polling loop reach the matching response within the timeout, as
  in claim C1, and let the response have no \<^verbatim>\<open>error\<close> member and a result that is a JSON
  object with no \<^verbatim>\<open>content\<close> key, or with an empty \<^verbatim>\<open>content\<close> list, or with a
  \<^verbatim>\<open>content\<close> list that starts with a JSON object whose type is not \<^verbatim>\<open>"text"\<close>. Then
  unwrapping it raises nothing, so neither an out-of-bounds nor a missing-key fault, and
  the gateway returns the mapping with \<^verbatim>\<open>success\<close> false and the unable-to-parse error.
  Moreover the index into \<^verbatim>\<open>content\<close> is guarded for every response: unless the decoder
  itself raises it, no \<^verbatim>\<open>IndexError\<close> comes out of the unwrapping.
\<close>

theorem textless_response_unparsable:
  assumes "message_endpoint c = Some ep"
    and "post_result env = Inr (status, body)"
    and "status = 200 \<or> status = 202"
    and "ticks env = pre @ (e, a) # post"
    and "still_polling loads (uuid4 env) (response_queue c) pre = Some (q, ahead)"
    and "e < 30"
    and "q @ a = m # behind"
    and "textless_response (uuid4 env) m"
  shows "unwrap_response loads m =
           Inr (JObj [(''success'', JBool False), (''error'', JStr msg_unparsable)]) \<and>
         call_tool loads c env tool_name arguments =
           Some (JObj [(''success'', JBool False), (''error'', JStr msg_unparsable)],
                 c\<lparr>session := session c @
                      [POST (server_url c @ ep) (tool_request (uuid4 env) tool_name arguments)],
                    response_queue := behind\<rparr>,
                 ahead @ [m]) \<and>
         ((\<forall>s x. loads s = Inl x \<longrightarrow> exc_cls x \<noteq> IndexError) \<longrightarrow>
          (\<forall>m' x. unwrap_response loads m' = Inl x \<longrightarrow> exc_cls x \<noteq> IndexError))"
proof -
  have g: "(\<forall>s x. loads s = Inl x \<longrightarrow> exc_cls x \<noteq> IndexError) \<longrightarrow>
          (\<forall>m' x. unwrap_response loads m' = Inl x \<longrightarrow> exc_cls x \<noteq> IndexError)"
    using unwrap_response_no_IndexError[of loads] by blast
  from assms(8) have u: "unwrap_response loads m = Inr (failure msg_unparsable)"
    by (rule unwrap_textless_response)
  from assms(8) have "check_response loads (uuid4 env) m = Inr (Some (failure msg_unparsable))"
    by (rule check_textless_response)
  with assms(1-7) have "call_tool loads c env tool_name arguments =
           Some (failure msg_unparsable,
                 c\<lparr>session := session c @
                      [POST (server_url c @ ep) (tool_request (uuid4 env) tool_name arguments)],
                    response_queue := behind\<rparr>,
                 ahead @ [m])"
    by (rule call_tool_reaches)
  with u g show ?thesis by (simp add: failure_def)
qed

theorem textless_response_unparsable_witness:
  "message_endpoint example_client = Some ''/messages/?session_id=abc123'' \<and>
   post_result empty_env = Inr (200, ''OK'') \<and>
   ticks empty_env = [] @ (0, [empty_reply ''id-1'']) # [(1 / 10, [])] \<and>
   still_polling sample_loads (uuid4 empty_env) (response_queue example_client) [] = Some ([], []) \<and>
   (0::rat) < 30 \<and>
   textless_response (uuid4 empty_env) (empty_reply ''id-1'') \<and>
   unwrap_response sample_loads (empty_reply ''id-1'') =
     Inr (JObj [(''success'', JBool False), (''error'', JStr msg_unparsable)]) \<and>
   call_tool sample_loads example_client empty_env ''query_current_weather'' weather_args =
     Some (JObj [(''success'', JBool False), (''error'', JStr msg_unparsable)],
           example_client\<lparr>session := session example_client @
                [POST (server_url example_client @ ''/messages/?session_id=abc123'')
                   (tool_request (uuid4 empty_env) ''query_current_weather'' weather_args)],
              response_queue := []\<rparr>,
           [] @ [empty_reply ''id-1''])"
proof -
  have h1: "message_endpoint example_client = Some ''/messages/?session_id=abc123''"
    by (simp add: example_client_def)
  have h2: "post_result empty_env = Inr (200, ''OK'')" by (simp add: empty_env_def)
  have h3: "(200::int) = 200 \<or> (200::int) = 202" by simp
  have h4: "ticks empty_env = [] @ (0, [empty_reply ''id-1'']) # [(1 / 10, [])]"
    by (simp add: empty_env_def)
  have h5: "still_polling sample_loads (uuid4 empty_env) (response_queue example_client) [] =
      Some ([], [])"
    by (simp add: example_client_def)
  have h6: "(0::rat) < 30" by simp
  have h7: "[] @ [empty_reply ''id-1''] = empty_reply ''id-1'' # []" by simp
  have h8: "textless_response (uuid4 empty_env) (empty_reply ''id-1'')"
    by (simp add: empty_env_def empty_reply_def)
  from textless_response_unparsable [OF h1 h2 h3 h4 h5 h6 h7 h8,
      of "''query_current_weather''" weather_args]
  have "unwrap_response sample_loads (empty_reply ''id-1'') =
     Inr (JObj [(''success'', JBool False), (''error'', JStr msg_unparsable)]) \<and>
   call_tool sample_loads example_client empty_env ''query_current_weather'' weather_args =
     Some (JObj [(''success'', JBool False), (''error'', JStr msg_unparsable)],
           example_client\<lparr>session := session example_client @
                [POST (server_url example_client @ ''/messages/?session_id=abc123'')
                   (tool_request (uuid4 empty_env) ''query_current_weather'' weather_args)],
              response_queue := []\<rparr>,
           [] @ [empty_reply ''id-1''])"
    by blast
  with h1 h2 h4 h5 h6 h8 show ?thesis by blast
qed

text \<open>
  Claim C9 as it is stated fails. A result that is \<^verbatim>\<open>null\<close> has no \<^verbatim>\<open>content\<close> key, but
  the test \<^verbatim>\<open>"content" in result\<close> raises \<^verbatim>\<open>TypeError\<close> and the call returns the
  call-failed mapping, not the unable-to-parse one. An \<^verbatim>\<open>error\<close> member beside the result
  is answered first. A \<^verbatim>\<open>content\<close> list that starts with a string raises
  \<^verbatim>\<open>AttributeError\<close>, and a \<^verbatim>\<open>content\<close> that is a non-empty object raises
  \<^verbatim>\<open>KeyError\<close> at its index 0.
\<close>

theorem unparsable_counterexample:
  "call_tool sample_loads example_client null_env ''query_current_weather'' weather_args =
     Some (JObj [(''success'', JBool False),
                 (''error'', JStr (msg_call_failed @
                    ''argument of type '' @ quoted ''NoneType'' @ '' is not iterable''))],
           example_client\<lparr>session := session example_client @
                [POST (server_url example_client @ ''/messages/?session_id=abc123'')
                   (tool_request ''id-1'' ''query_current_weather'' weather_args)],
              response_queue := []\<rparr>,
           [null_reply ''id-1'']) \<and>
   msg_call_failed @ ''argument of type '' @ quoted ''NoneType'' @ '' is not iterable''
     \<noteq> msg_unparsable \<and>
   unwrap_response sample_loads
     (JObj [(''id'', JStr ''id-1''), (''error'', JObj [(''message'', JStr ''boom'')]),
            (''result'', JObj [])]) =
     Inr (JObj [(''success'', JBool False), (''error'', JStr ''boom'')]) \<and>
   unwrap_response sample_loads
     (JObj [(''id'', JStr ''id-1''), (''result'', JObj [(''content'', JArr [JStr ''x''])])]) =
     Inl (PyExc AttributeError (quoted ''str'' @ '' object has no attribute '' @ quoted ''get'')) \<and>
   unwrap_response sample_loads
     (JObj [(''id'', JStr ''id-1''),
            (''result'', JObj [(''content'', JObj [(''type'', JStr ''image'')])])]) =
     Inl (PyExc KeyError ''0'')"
proof -
  have h1: "message_endpoint example_client = Some ''/messages/?session_id=abc123''"
    by (simp add: example_client_def)
  have h2: "post_result null_env = Inr (202, ''Accepted'')" by (simp add: null_env_def)
  have h3: "(202::int) = 200 \<or> (202::int) = 202" by simp
  have p: "poll sample_loads (uuid4 null_env) (response_queue example_client) (ticks null_env) =
      Some (Inl (PyExc TypeError
              (''argument of type '' @ quoted ''NoneType'' @ '' is not iterable'')), [],
            [null_reply ''id-1''])"
    by (simp add: null_env_def example_client_def check_response_def unwrap_response_def
          null_reply_def)
  have c: "call_tool sample_loads example_client null_env ''query_current_weather'' weather_args =
     Some (JObj [(''success'', JBool False),
                 (''error'', JStr (msg_call_failed @
                    ''argument of type '' @ quoted ''NoneType'' @ '' is not iterable''))],
           example_client\<lparr>session := session example_client @
                [POST (server_url example_client @ ''/messages/?session_id=abc123'')
                   (tool_request ''id-1'' ''query_current_weather'' weather_args)],
              response_queue := []\<rparr>,
           [null_reply ''id-1''])"
    using call_tool_polling[OF h1 h2 h3, of sample_loads "''query_current_weather''" weather_args] p
    by (simp add: call_tool_except_def failure_def null_env_def)
  have d: "msg_call_failed @ ''argument of type '' @ quoted ''NoneType'' @ '' is not iterable''
     \<noteq> msg_unparsable"
    by (simp add: msg_call_failed_def msg_unparsable_def)
  have e: "unwrap_response sample_loads
     (JObj [(''id'', JStr ''id-1''), (''error'', JObj [(''message'', JStr ''boom'')]),
            (''result'', JObj [])]) =
     Inr (JObj [(''success'', JBool False), (''error'', JStr ''boom'')])"
    by (simp add: unwrap_response_def)
  have f: "unwrap_response sample_loads
     (JObj [(''id'', JStr ''id-1''), (''result'', JObj [(''content'', JArr [JStr ''x''])])]) =
     Inl (PyExc AttributeError (quoted ''str'' @ '' object has no attribute '' @ quoted ''get''))"
    by (simp add: unwrap_response_def)
  have g: "unwrap_response sample_loads
     (JObj [(''id'', JStr ''id-1''),
            (''result'', JObj [(''content'', JObj [(''type'', JStr ''image'')])])]) =
     Inl (PyExc KeyError ''0'')"
    by (simp add: unwrap_response_def)
  from c d e f g show ?thesis by blast
qed

section \<open>The wrappers\<close>

text \<open>When the gateway returns a mapping, a wrapper returns it unchanged.\<close>

lemma query_current_weather_mapping:
  "call_tool loads c env ''query_current_weather'' (JObj [(''city'', JStr city)]) =
       Some (JObj kvs, c', taken) \<Longrightarrow>
     query_current_weather loads c env city = Some (Inr (JObj kvs), c', taken)"
  by (simp add: query_current_weather_def)

text \<open>
  Claim C2 fails on the code. The gateway returns whatever \<^verbatim>\<open>json.loads\<close> makes of the
  text of the tool result; when that is not a mapping, here the empty list, the test
  \<^verbatim>\<open>result.get("success")\<close> of each wrapper raises \<^verbatim>\<open>AttributeError\<close>, outside every
  \<^verbatim>\<open>try\<close>, and the caller gets the exception instead of a result.
\<close>

theorem wrappers_raise_on_list_payload:
  "query_current_weather sample_loads example_client list_env ''Beijing'' =
     Some (Inl (PyExc AttributeError (quoted ''list'' @ '' object has no attribute '' @ quoted ''get'')),
           example_client\<lparr>session := session example_client @
                [POST (server_url example_client @ ''/messages/?session_id=abc123'')
                   (tool_request ''id-1'' ''query_current_weather'' weather_args)],
              response_queue := []\<rparr>,
           [text_reply ''id-1'' ''[]'']) \<and>
   query_weather_forecast sample_loads example_client list_env ''Beijing'' =
     Some (Inl (PyExc AttributeError (quoted ''list'' @ '' object has no attribute '' @ quoted ''get'')),
           example_client\<lparr>session := session example_client @
                [POST (server_url example_client @ ''/messages/?session_id=abc123'')
                   (tool_request ''id-1'' ''query_weather_forecast'' weather_args)],
              response_queue := []\<rparr>,
           [text_reply ''id-1'' ''[]''])"
proof -
  have h1: "message_endpoint example_client = Some ''/messages/?session_id=abc123''"
    by (simp add: example_client_def)
  have h2: "post_result list_env = Inr (202, ''Accepted'')" by (simp add: list_env_def)
  have h3: "(202::int) = 200 \<or> (202::int) = 202" by simp
  have t: "text_response ''id-1'' ''[]'' (text_reply ''id-1'' ''[]'')"
    by (simp add: text_reply_def)
  have l: "sample_loads ''[]'' = Inr (JArr [])" by (simp add: sample_loads_def)
  from t l have "check_response sample_loads ''id-1'' (text_reply ''id-1'' ''[]'') = Inr (Some (JArr []))"
    by (rule check_text_response)
  then have p: "poll sample_loads (uuid4 list_env) (response_queue example_client) (ticks list_env) =
      Some (Inr (JArr []), [], [text_reply ''id-1'' ''[]''])"
    by (simp add: list_env_def example_client_def)
  have c: "call_tool sample_loads example_client list_env tool_name weather_args =
      Some (JArr [],
            example_client\<lparr>session := session example_client @
                [POST (server_url example_client @ ''/messages/?session_id=abc123'')
                   (tool_request ''id-1'' tool_name weather_args)],
              response_queue := []\<rparr>,
            [text_reply ''id-1'' ''[]''])" for tool_name
    using call_tool_polling[OF h1 h2 h3, of sample_loads tool_name weather_args] p
    by (simp add: list_env_def)
  show ?thesis
    using c[of "''query_current_weather''"] c[of "''query_weather_forecast''"]
    by (simp add: query_current_weather_def query_weather_forecast_def weather_args_def)
qed

section \<open>Two calls in sequence\<close>

lemma text_response_other:
  "text_response rid' txt m \<Longrightarrow> rid \<noteq> rid' \<Longrightarrow> other_message rid m"
  by (cases m) auto

text \<open>
  Claim C4, amended. Two gateway calls are made one after the other on an established
  session, with distinct identifiers and accepted requests, and the polling loop of each
  reaches the response to its own call within the timeout, as in claim C1; the second call
  starts with the queue the first one left. Then each call returns the value decoded from
  its own response. The response of either call is a message with another \<^verbatim>\<open>id\<close> for
  the other call, as is every entry a call took before its response: such entries are
  taken off the queue and not put back, for what a call took, followed by the queue it
  leaves, is the queue it found followed by what arrived.
\<close>

theorem sequential_calls_own_response:
  assumes "message_endpoint c = Some ep"
    and "uuid4 env1 \<noteq> uuid4 env2"
    and "post_result env1 = Inr (status1, body1)"
    and "status1 = 200 \<or> status1 = 202"
    and "ticks env1 = pre1 @ (e1, a1) # post1"
    and "still_polling loads (uuid4 env1) (response_queue c) pre1 = Some (q1, ahead1)"
    and "e1 < 30"
    and "q1 @ a1 = m1 # behind1"
    and "text_response (uuid4 env1) txt1 m1"
    and "loads txt1 = Inr v1"
    and "post_result env2 = Inr (status2, body2)"
    and "status2 = 200 \<or> status2 = 202"
    and "ticks env2 = pre2 @ (e2, a2) # post2"
    and "still_polling loads (uuid4 env2) behind1 pre2 = Some (q2, ahead2)"
    and "e2 < 30"
    and "q2 @ a2 = m2 # behind2"
    and "text_response (uuid4 env2) txt2 m2"
    and "loads txt2 = Inr v2"
    and "c1 = c\<lparr>session := session c @
            [POST (server_url c @ ep) (tool_request (uuid4 env1) tool1 arguments1)],
          response_queue := behind1\<rparr>"
  shows "call_tool loads c env1 tool1 arguments1 = Some (v1, c1, ahead1 @ [m1]) \<and>
         call_tool loads c1 env2 tool2 arguments2 =
           Some (v2,
                 c1\<lparr>session := session c1 @
                      [POST (server_url c1 @ ep) (tool_request (uuid4 env2) tool2 arguments2)],
                    response_queue := behind2\<rparr>,
                 ahead2 @ [m2]) \<and>
         other_message (uuid4 env1) m2 \<and> other_message (uuid4 env2) m1 \<and>
         (\<forall>x\<in>set ahead1. other_message (uuid4 env1) x) \<and>
         (\<forall>x\<in>set ahead2. other_message (uuid4 env2) x) \<and>
         (ahead1 @ [m1]) @ behind1 = response_queue c @ concat (map snd pre1) @ a1 \<and>
         (ahead2 @ [m2]) @ behind2 = behind1 @ concat (map snd pre2) @ a2"
proof -
  from assms(9,10) have k1: "check_response loads (uuid4 env1) m1 = Inr (Some v1)"
    by (rule check_text_response)
  from assms(17,18) have k2: "check_response loads (uuid4 env2) m2 = Inr (Some v2)"
    by (rule check_text_response)
  have first: "call_tool loads c env1 tool1 arguments1 = Some (v1, c1, ahead1 @ [m1])"
    unfolding assms(19) using assms(1) assms(3-8) k1 by (rule call_tool_reaches)
  have ep1: "message_endpoint c1 = Some ep" using assms(1) by (simp add: assms(19))
  have q1: "response_queue c1 = behind1" by (simp add: assms(19))
  from assms(14) have sp2: "still_polling loads (uuid4 env2) (response_queue c1) pre2 =
      Some (q2, ahead2)" by (simp only: q1)
  have second: "call_tool loads c1 env2 tool2 arguments2 =
           Some (v2,
                 c1\<lparr>session := session c1 @
                      [POST (server_url c1 @ ep) (tool_request (uuid4 env2) tool2 arguments2)],
                    response_queue := behind2\<rparr>,
                 ahead2 @ [m2])"
    using ep1 assms(11,12,13) sp2 assms(15,16) k2 by (rule call_tool_reaches)
  from assms(17) assms(2) have x12: "other_message (uuid4 env1) m2"
    by (rule text_response_other)
  from assms(9) assms(2)[symmetric] have x21: "other_message (uuid4 env2) m1"
    by (rule text_response_other)
  note o1 = still_polling_others[OF assms(6)]
  note o2 = still_polling_others[OF assms(14)]
  from still_polling_conserves[OF assms(6)] assms(8)
  have k1: "(ahead1 @ [m1]) @ behind1 = response_queue c @ concat (map snd pre1) @ a1"
    by (metis append.assoc append_Cons append_Nil)
  from still_polling_conserves[OF assms(14)] assms(16)
  have k2: "(ahead2 @ [m2]) @ behind2 = behind1 @ concat (map snd pre2) @ a2"
    by (metis append.assoc append_Cons append_Nil)
  from first second x12 x21 o1 o2 k1 k2 show ?thesis by blast
qed

lemma second_call:
  assumes "message_endpoint c = Some ep" and "response_queue c = [x]"
    and "other_message ''id-2'' x"
  shows "call_tool sample_loads c second_env tool_name arguments =
     Some (JObj [(''success'', JBool True), (''city'', JStr ''Shanghai'')],
           c\<lparr>session := session c @
                [POST (server_url c @ ep) (tool_request ''id-2'' tool_name arguments)],
              response_queue := []\<rparr>,
           [x, text_reply ''id-2'' shanghai_text])"
proof -
  have h2: "post_result second_env = Inr (202, ''Accepted'')" by (simp add: second_env_def)
  have h3: "(202::int) = 200 \<or> (202::int) = 202" by simp
  have t: "text_response ''id-2'' shanghai_text (text_reply ''id-2'' shanghai_text)"
    by (simp add: text_reply_def)
  have l: "sample_loads shanghai_text =
      Inr (JObj [(''success'', JBool True), (''city'', JStr ''Shanghai'')])"
    by (simp add: sample_loads_def shanghai_text_def)
  from t l have k: "check_response sample_loads ''id-2'' (text_reply ''id-2'' shanghai_text) =
      Inr (Some (JObj [(''success'', JBool True), (''city'', JStr ''Shanghai'')]))"
    by (rule check_text_response)
  from assms(3) have o: "check_response sample_loads ''id-2'' x = Inr None"
    by (simp add: check_response_None_iff)
  have p: "poll sample_loads (uuid4 second_env) (response_queue c) (ticks second_env) =
      Some (Inr (JObj [(''success'', JBool True), (''city'', JStr ''Shanghai'')]), [],
            [x, text_reply ''id-2'' shanghai_text])"
    by (simp add: second_env_def assms(2) k o)
  show ?thesis
    using call_tool_polling[OF assms(1) h2 h3, of sample_loads tool_name arguments] p
    by (simp add: second_env_def)
qed

theorem sequential_calls_own_response_witness:
  "message_endpoint example_client = Some ''/messages/?session_id=abc123'' \<and>
   uuid4 first_env \<noteq> uuid4 second_env \<and>
   ticks first_env =
     [(0, [progress_note, text_reply ''id-1'' beijing_text])] @ (1 / 10, [progress_note]) # [] \<and>
   still_polling sample_loads (uuid4 first_env) (response_queue example_client)
     [(0, [progress_note, text_reply ''id-1'' beijing_text])] =
     Some ([text_reply ''id-1'' beijing_text], [progress_note]) \<and>
   (1 / 10 :: rat) < 30 \<and>
   ticks second_env = [(0, [])] @ (299 / 10, [text_reply ''id-2'' shanghai_text]) # [(30, [])] \<and>
   still_polling sample_loads (uuid4 second_env) [progress_note] [(0, [])] =
     Some ([], [progress_note]) \<and>
   (299 / 10 :: rat) < 30 \<and>
   call_tool sample_loads example_client first_env ''query_current_weather'' weather_args =
     Some (JObj [(''success'', JBool True), (''city'', JStr ''Beijing'')], after_first,
           [progress_note] @ [text_reply ''id-1'' beijing_text]) \<and>
   call_tool sample_loads after_first second_env ''query_weather_forecast'' shanghai_args =
     Some (JObj [(''success'', JBool True), (''city'', JStr ''Shanghai'')],
           after_first\<lparr>session := session after_first @
                [POST (server_url after_first @ ''/messages/?session_id=abc123'')
                   (tool_request (uuid4 second_env) ''query_weather_forecast'' shanghai_args)],
              response_queue := []\<rparr>,
           [progress_note] @ [text_reply ''id-2'' shanghai_text]) \<and>
   other_message (uuid4 first_env) (text_reply ''id-2'' shanghai_text) \<and>
   other_message (uuid4 second_env) (text_reply ''id-1'' beijing_text)"
proof -
  have ep: "message_endpoint example_client = Some ''/messages/?session_id=abc123''"
    by (simp add: example_client_def)
  have ids: "uuid4 first_env \<noteq> uuid4 second_env" by (simp add: first_env_def second_env_def)
  have p1: "post_result first_env = Inr (202, ''Accepted'')" by (simp add: first_env_def)
  have p2: "post_result second_env = Inr (202, ''Accepted'')" by (simp add: second_env_def)
  have ok: "(202::int) = 200 \<or> (202::int) = 202" by simp
  have t1: "ticks first_env =
     [(0, [progress_note, text_reply ''id-1'' beijing_text])] @ (1 / 10, [progress_note]) # []"
    by (simp add: first_env_def)
  have s1: "still_polling sample_loads (uuid4 first_env) (response_queue example_client)
     [(0, [progress_note, text_reply ''id-1'' beijing_text])] =
     Some ([text_reply ''id-1'' beijing_text], [progress_note])"
    by (simp add: first_env_def example_client_def check_response_def progress_note_def)
  have e1: "(1 / 10 :: rat) < 30" by simp
  have a1: "[text_reply ''id-1'' beijing_text] @ [progress_note] =
      text_reply ''id-1'' beijing_text # [progress_note]" by simp
  have r1: "text_response (uuid4 first_env) beijing_text (text_reply ''id-1'' beijing_text)"
    by (simp add: first_env_def text_reply_def)
  have d1: "sample_loads beijing_text =
      Inr (JObj [(''success'', JBool True), (''city'', JStr ''Beijing'')])"
    by (simp add: sample_loads_def beijing_text_def)
  have t2: "ticks second_env =
      [(0, [])] @ (299 / 10, [text_reply ''id-2'' shanghai_text]) # [(30, [])]"
    by (simp add: second_env_def)
  have s2: "still_polling sample_loads (uuid4 second_env) [progress_note] [(0, [])] =
     Some ([], [progress_note])"
    by (simp add: second_env_def check_response_def progress_note_def)
  have e2: "(299 / 10 :: rat) < 30" by simp
  have a2: "[] @ [text_reply ''id-2'' shanghai_text] = text_reply ''id-2'' shanghai_text # []"
    by simp
  have r2: "text_response (uuid4 second_env) shanghai_text (text_reply ''id-2'' shanghai_text)"
    by (simp add: second_env_def text_reply_def)
  have d2: "sample_loads shanghai_text =
      Inr (JObj [(''success'', JBool True), (''city'', JStr ''Shanghai'')])"
    by (simp add: sample_loads_def shanghai_text_def)
  have c1: "after_first = example_client\<lparr>session := session example_client @
            [POST (server_url example_client @ ''/messages/?session_id=abc123'')
               (tool_request (uuid4 first_env) ''query_current_weather'' weather_args)],
          response_queue := [progress_note]\<rparr>"
    by (simp add: after_first_def first_env_def)
  have "call_tool sample_loads example_client first_env ''query_current_weather'' weather_args =
          Some (JObj [(''success'', JBool True), (''city'', JStr ''Beijing'')], after_first,
                [progress_note] @ [text_reply ''id-1'' beijing_text]) \<and>
        call_tool sample_loads after_first second_env ''query_weather_forecast'' shanghai_args =
          Some (JObj [(''success'', JBool True), (''city'', JStr ''Shanghai'')],
                after_first\<lparr>session := session after_first @
                     [POST (server_url after_first @ ''/messages/?session_id=abc123'')
                        (tool_request (uuid4 second_env) ''query_weather_forecast'' shanghai_args)],
                   response_queue := []\<rparr>,
                [progress_note] @ [text_reply ''id-2'' shanghai_text]) \<and>
        other_message (uuid4 first_env) (text_reply ''id-2'' shanghai_text) \<and>
        other_message (uuid4 second_env) (text_reply ''id-1'' beijing_text) \<and>
        (\<forall>x\<in>set [progress_note]. other_message (uuid4 first_env) x) \<and>
        (\<forall>x\<in>set [progress_note]. other_message (uuid4 second_env) x) \<and>
        ([progress_note] @ [text_reply ''id-1'' beijing_text]) @ [progress_note] =
          response_queue example_client @
          concat (map snd [(0::rat, [progress_note, text_reply ''id-1'' beijing_text])]) @
          [progress_note] \<and>
        ([progress_note] @ [text_reply ''id-2'' shanghai_text]) @ [] =
          [progress_note] @ concat (map snd [(0::rat, [])]) @ [text_reply ''id-2'' shanghai_text]"
    by (rule sequential_calls_own_response
          [OF ep ids p1 ok t1 s1 e1 a1 r1 _ p2 ok t2 s2 e2 a2 r2 _ c1]) (rule d1, rule d2)
  with ep ids t1 s1 e1 t2 s2 e2 show ?thesis by blast
qed

text \<open>
  Claim C4 as it is stated fails. The response to the first call is enqueued after that
  call has started polling, at the test made at 29.9 behind a notification; the first call
  returns the timed-out error, not the value decoded from its response. The second call
  then takes that response off the queue, drops it, and returns its own.
\<close>

theorem sequential_calls_counterexample:
  "uuid4 crowded_env \<noteq> uuid4 second_env \<and>
   text_response (uuid4 crowded_env) beijing_text (text_reply ''id-1'' beijing_text) \<and>
   sample_loads beijing_text = Inr (JObj [(''success'', JBool True), (''city'', JStr ''Beijing'')]) \<and>
   ticks crowded_env ! 299 = (299 / 10, [progress_note, text_reply ''id-1'' beijing_text]) \<and>
   call_tool sample_loads example_client crowded_env ''query_current_weather'' weather_args =
     Some (JObj [(''success'', JBool False), (''error'', JStr msg_timed_out)], after_crowded,
           [progress_note]) \<and>
   call_tool sample_loads after_crowded second_env ''query_weather_forecast'' shanghai_args =
     Some (JObj [(''success'', JBool True), (''city'', JStr ''Shanghai'')],
           after_crowded\<lparr>session := session after_crowded @
                [POST (server_url after_crowded @ ''/messages/?session_id=abc123'')
                   (tool_request ''id-2'' ''query_weather_forecast'' shanghai_args)],
              response_queue := []\<rparr>,
           [text_reply ''id-1'' beijing_text, text_reply ''id-2'' shanghai_text])"
proof -
  have ids: "uuid4 crowded_env \<noteq> uuid4 second_env"
    by (simp add: crowded_env_def second_env_def)
  have t: "text_response (uuid4 crowded_env) beijing_text (text_reply ''id-1'' beijing_text)"
    by (simp add: crowded_env_def text_reply_def)
  have s: "sample_loads beijing_text =
      Inr (JObj [(''success'', JBool True), (''city'', JStr ''Beijing'')])"
    by (simp add: sample_loads_def beijing_text_def)
  have l: "length (idle_ticks 299) = 299" by (simp add: idle_ticks_def)
  have n: "ticks crowded_env ! 299 = (299 / 10, [progress_note, text_reply ''id-1'' beijing_text])"
    by (simp add: crowded_env_def nth_append l)
  have c1: "call_tool sample_loads example_client crowded_env ''query_current_weather'' weather_args =
     Some (JObj [(''success'', JBool False), (''error'', JStr msg_timed_out)], after_crowded,
           [progress_note])"
    using crowded_call[of "''query_current_weather''"] by (simp add: after_crowded_def)
  have ep: "message_endpoint after_crowded = Some ''/messages/?session_id=abc123''"
    by (simp add: after_crowded_def example_client_def)
  have q: "response_queue after_crowded = [text_reply ''id-1'' beijing_text]"
    by (simp add: after_crowded_def)
  have o: "other_message ''id-2'' (text_reply ''id-1'' beijing_text)"
    by (simp add: text_reply_def)
  note c2 = second_call[OF ep q o, of "''query_weather_forecast''" shanghai_args]
  from ids t s n c1 c2 show ?thesis by blast
qed

section \<open>The event stream reader\<close>

lemma strip_endpoint: "strip ''endpoint'' = ''endpoint''"
  by code_simp

lemma strip_message: "strip ''message'' = ''message''"
  by code_simp

lemma sse_line_queue:
  assumes "sse_line loads (c, cur) l = Inr (c', cur')"
  shows "response_queue c' = response_queue c \<or>
         (\<exists>s v. loads s = Inr v \<and> response_queue c' = response_queue c @ [v])"
proof (cases l)
  case (Decoded s)
  show ?thesis
  proof (cases "loads (drop 6 s)")
    case (Inl e)
    with assms Decoded show ?thesis by (auto simp: Let_def split: if_splits)
  next
    case (Inr v)
    with assms Decoded show ?thesis by (auto simp: Let_def split: if_splits)
  qed
next
  case (Undecodable msg)
  with assms show ?thesis by simp
qed

lemma startswith_data: "startswith s ''data: '' \<Longrightarrow> \<exists>p. s = ''data: '' @ p"
proof -
  assume "startswith s ''data: ''"
  then have "take (length ''data: '') s = ''data: ''" by (simp only: startswith_def)
  then have "''data: '' @ drop (length ''data: '') s = s" by (metis append_take_drop_id)
  then show ?thesis by metis
qed

lemma sse_line_endpoint:
  assumes "sse_line loads (c, cur) l = Inr (c', cur')"
  shows "message_endpoint c' = message_endpoint c \<or>
         (cur = Some ''endpoint'' \<and> (\<exists>p. l = Decoded (''data: '' @ p) \<and> message_endpoint c' = Some p))"
proof (cases l)
  case (Decoded s)
  show ?thesis
  proof (cases "startswith s ''data: '' \<and> cur = Some ''endpoint''")
    case True
    then obtain p where p: "s = ''data: '' @ p" using startswith_data by blast
    from assms have "c' = c\<lparr>message_endpoint := Some p\<rparr>"
      unfolding Decoded p using True by (simp add: startswith_def)
    with True Decoded p show ?thesis by simp
  next
    case False
    with assms Decoded show ?thesis by (auto simp: Let_def split: if_splits sum.splits)
  qed
next
  case (Undecodable msg)
  with assms show ?thesis by simp
qed

lemma sse_lines_queue:
  "\<exists>es. response_queue (fst (fst (sse_lines loads (c, cur) ls))) = response_queue c @ es \<and>
        (\<forall>v\<in>set es. \<exists>s. loads s = Inr v)"
proof (induction ls arbitrary: c cur)
  case Nil
  show ?case by simp
next
  case (Cons l ls)
  show ?case
  proof (cases "sse_line loads (c, cur) l")
    case (Inl e)
    then show ?thesis by simp
  next
    case (Inr st)
    obtain c' cur' where st: "st = (c', cur')" by (cases st)
    from Cons.IH[of c' cur'] obtain es where
      es: "response_queue (fst (fst (sse_lines loads (c', cur') ls))) = response_queue c' @ es"
      and dec: "\<forall>v\<in>set es. \<exists>s. loads s = Inr v" by blast
    from sse_line_queue[OF Inr[unfolded st]] show ?thesis
    proof
      assume "response_queue c' = response_queue c"
      with es dec Inr st show ?thesis by auto
    next
      assume "\<exists>s v. loads s = Inr v \<and> response_queue c' = response_queue c @ [v]"
      then obtain s v where v: "loads s = Inr v" and q: "response_queue c' = response_queue c @ [v]"
        by blast
      from es q have "response_queue (fst (fst (sse_lines loads (c', cur') ls))) =
          response_queue c @ (v # es)" by simp
      moreover from v dec have "\<forall>x\<in>set (v # es). \<exists>s. loads s = Inr x" by auto
      ultimately show ?thesis using Inr st by (simp del: sse_line.simps)
    qed
  qed
qed

lemma sse_lines_append:
  "sse_lines loads st (xs @ ys) =
     (case sse_lines loads st xs of
        (st', None) \<Rightarrow> sse_lines loads st' ys
      | (st', Some e) \<Rightarrow> (st', Some e))"
  by (induction xs arbitrary: st) (auto split: sum.splits simp del: sse_line.simps)

lemma sse_line_Decoded: "\<exists>st'. sse_line loads st (Decoded s) = Inr st'"
  by (cases st) simp

lemma sse_lines_decoded:
  "list_all is_Decoded xs \<Longrightarrow> snd (sse_lines loads st xs) = None"
proof (induction xs arbitrary: st)
  case Nil
  show ?case by simp
next
  case (Cons l xs)
  from Cons.prems obtain s where l: "l = Decoded s" by (cases l) auto
  from sse_line_Decoded[of loads st s] obtain st' where "sse_line loads st (Decoded s) = Inr st'"
    by blast
  with Cons l show ?case by (simp del: sse_line.simps)
qed

lemma endpoint_frame:
  assumes "strip name = ''endpoint''"
  shows "sse_lines loads (c, cur) [Decoded (''event: '' @ name), Decoded (''data: '' @ p)] =
           ((c\<lparr>message_endpoint := Some p\<rparr>, None), None)"
  using assms by (simp add: startswith_def)


lemma sse_listener_endpoint_last:
  assumes "list_all is_Decoded pre" and "strip name = ''endpoint''"
  shows "message_endpoint (sse_listener loads c
           (pre @ [Decoded (''event: '' @ name), Decoded (''data: '' @ p)])) = Some p"
proof -
  obtain c' cur' where st: "fst (sse_lines loads (c, None) pre) = (c', cur')"
    by (cases "fst (sse_lines loads (c, None) pre)")
  from sse_lines_decoded[OF assms(1), of loads "(c, None)"]
  have "sse_lines loads (c, None) pre = ((c', cur'), None)"
    using st by (cases "sse_lines loads (c, None) pre") simp
  then have "sse_lines loads (c, None)
      (pre @ [Decoded (''event: '' @ name), Decoded (''data: '' @ p)]) =
      sse_lines loads (c', cur') [Decoded (''event: '' @ name), Decoded (''data: '' @ p)]"
    by (simp add: sse_lines_append del: sse_lines.simps)
  also have "\<dots> = ((c'\<lparr>message_endpoint := Some p\<rparr>, None), None)"
    using assms(2) by (rule endpoint_frame)
  finally show ?thesis by (simp add: sse_listener_def)
qed

text \<open>
  Claim C3, amended. Every \<^verbatim>\<open>endpoint\<close>-event frame sets the message endpoint of the
  session to its payload, whatever the lines before it were and whatever the endpoint was:
  after any sequence of frames the endpoint is the payload of the latest \<^verbatim>\<open>endpoint\<close>
  event. A line that is not the data line of an \<^verbatim>\<open>endpoint\<close> event leaves the endpoint
  as it is.
\<close>

theorem endpoint_set_by_each_frame:
  "(list_all is_Decoded pre \<and> strip name = ''endpoint'' \<longrightarrow>
      message_endpoint (sse_listener loads c
        (pre @ [Decoded (''event: '' @ name), Decoded (''data: '' @ p)])) = Some p) \<and>
   (sse_line loads (c, cur) l = Inr (c', cur') \<longrightarrow>
      message_endpoint c' = message_endpoint c \<or>
      (cur = Some ''endpoint'' \<and>
       (\<exists>q. l = Decoded (''data: '' @ q) \<and> message_endpoint c' = Some q)))"
  using sse_listener_endpoint_last[of pre name loads c p] sse_line_endpoint[of loads c cur l c' cur']
  by blast

theorem endpoint_set_by_each_frame_witness:
  "list_all is_Decoded
     [Decoded ''event: endpoint'', Decoded ''data: /messages/?session_id=abc123'',
      Decoded ''event: message'', Decoded ''data: {}''] \<and>
   strip ''endpoint'' = ''endpoint'' \<and>
   message_endpoint (sse_listener sample_loads fresh_client
     ([Decoded ''event: endpoint'', Decoded ''data: /messages/?session_id=abc123'',
       Decoded ''event: message'', Decoded ''data: {}''] @
      [Decoded (''event: '' @ ''endpoint''), Decoded (''data: '' @ ''/messages/?session_id=def456'')])) =
     Some ''/messages/?session_id=def456'' \<and>
   sse_line sample_loads (fresh_client, Some ''endpoint'') (Decoded ''data: /messages/?session_id=abc123'') =
     Inr (fresh_client\<lparr>message_endpoint := Some ''/messages/?session_id=abc123''\<rparr>, None)"
proof -
  have d: "list_all is_Decoded
     [Decoded ''event: endpoint'', Decoded ''data: /messages/?session_id=abc123'',
      Decoded ''event: message'', Decoded ''data: {}'']" by simp
  have e: "sse_line sample_loads (fresh_client, Some ''endpoint'')
      (Decoded ''data: /messages/?session_id=abc123'') =
     Inr (fresh_client\<lparr>message_endpoint := Some ''/messages/?session_id=abc123''\<rparr>, None)"
    by (simp add: startswith_def)
  from endpoint_set_by_each_frame [of
      "[Decoded ''event: endpoint'', Decoded ''data: /messages/?session_id=abc123'',
        Decoded ''event: message'', Decoded ''data: {}'']"
      "''endpoint''" sample_loads fresh_client "''/messages/?session_id=def456''"
      "Some ''endpoint''" "Decoded ''data: /messages/?session_id=abc123''"
      "fresh_client\<lparr>message_endpoint := Some ''/messages/?session_id=abc123''\<rparr>" None]
    d strip_endpoint e
  show ?thesis by blast
qed

text \<open>
  Claim C3 as it is stated fails: the first \<^verbatim>\<open>endpoint\<close> frame sets the endpoint, and a
  second \<^verbatim>\<open>endpoint\<close> frame with another payload replaces it.
\<close>

theorem endpoint_set_once_counterexample:
  "message_endpoint (sse_listener sample_loads fresh_client
     [Decoded ''event: endpoint'', Decoded ''data: /messages/?session_id=abc123'']) =
     Some ''/messages/?session_id=abc123'' \<and>
   message_endpoint (sse_listener sample_loads fresh_client
     [Decoded ''event: endpoint'', Decoded ''data: /messages/?session_id=abc123'',
      Decoded ''event: endpoint'', Decoded ''data: /messages/?session_id=def456'']) =
     Some ''/messages/?session_id=def456'' \<and>
   ''/messages/?session_id=def456'' \<noteq> ''/messages/?session_id=abc123''"
  by (simp add: sse_listener_def startswith_def strip_endpoint)

text \<open>
  Claim C8. A \<^verbatim>\<open>data:\<close> payload under a \<^verbatim>\<open>message\<close> event that \<^verbatim>\<open>json.loads\<close> does not
  accept leaves the iteration without an exception and leaves the client, so its queue,
  as it was. Whatever lines the reader is given, the entries it adds to the queue are
  values that \<^verbatim>\<open>json.loads\<close> returned.
\<close>

theorem malformed_message_dropped:
  "(loads p = Inl x \<longrightarrow>
      sse_line loads (c, Some ''message'') (Decoded (''data: '' @ p)) = Inr (c, None)) \<and>
   (\<exists>es. response_queue (sse_listener loads c ls) = response_queue c @ es \<and>
         (\<forall>v\<in>set es. \<exists>s. loads s = Inr v))"
proof
  show "loads p = Inl x \<longrightarrow>
      sse_line loads (c, Some ''message'') (Decoded (''data: '' @ p)) = Inr (c, None)"
    by (simp add: startswith_def)
  show "\<exists>es. response_queue (sse_listener loads c ls) = response_queue c @ es \<and>
         (\<forall>v\<in>set es. \<exists>s. loads s = Inr v)"
    unfolding sse_listener_def by (rule sse_lines_queue)
qed

theorem malformed_message_dropped_witness:
  \<open>sample_loads ''{"success": tru'' =
     Inl (PyExc JSONDecodeError ''Expecting value: line 1 column 1 (char 0)'') \<and>
   sse_line sample_loads (example_client, Some ''message'')
       (Decoded (''data: '' @ ''{"success": tru'')) = Inr (example_client, None) \<and>
   response_queue (sse_listener sample_loads example_client
       [Decoded ''event: message'', Decoded ''data: {}'',
        Decoded ''event: message'', Decoded ''data: {"success": tru'']) = [JObj []]\<close>
proof -
  have l: \<open>sample_loads ''{"success": tru'' =
     Inl (PyExc JSONDecodeError ''Expecting value: line 1 column 1 (char 0)'')\<close>
    by (simp add: sample_loads_def)
  from malformed_message_dropped [of sample_loads \<open>''{"success": tru''\<close>
      "PyExc JSONDecodeError ''Expecting value: line 1 column 1 (char 0)''" example_client] l
  have d: \<open>sse_line sample_loads (example_client, Some ''message'')
       (Decoded (''data: '' @ ''{"success": tru'')) = Inr (example_client, None)\<close>
    by blast
  have q: \<open>response_queue (sse_listener sample_loads example_client
       [Decoded ''event: message'', Decoded ''data: {}'',
        Decoded ''event: message'', Decoded ''data: {"success": tru'']) = [JObj []]\<close>
    by (simp add: sse_listener_def startswith_def strip_message sample_loads_def example_client_def)
  from l d q show ?thesis by blast
qed

section \<open>The process-wide client\<close>

lemma example_boot_client:
  "MCPWeatherClient sample_loads ''http://localhost:8001/'' example_boot = Some booted_client"
  by (simp add: MCPWeatherClient_def example_boot_def rstrip_slash_def sse_listener_def
      startswith_def strip_endpoint initialize_mcp_def init_reply_def booted_client_def Let_def)

text \<open>
  Claim C10. While the global holds no client, \<^verbatim>\<open>get_mcp_client\<close> constructs one from its
  argument, stores it and returns it. Once a call has returned a client, every later call
  returns that same client and leaves the global as it is, whatever address it is given
  and whatever the server does: the argument is not looked at and nothing is constructed.
\<close>

theorem get_mcp_client_idempotent:
  "get_mcp_client loads None url env =
     map_option (\<lambda>c. (Some c, c)) (MCPWeatherClient loads url env) \<and>
   (get_mcp_client loads g url env = Some (g', c) \<longrightarrow>
      (\<forall>url' env'. get_mcp_client loads g' url' env' = Some (g', c)))"
  by (cases g) (auto simp: get_mcp_client_def)

theorem get_mcp_client_idempotent_witness:
  "get_mcp_client sample_loads None ''http://localhost:8001/'' example_boot =
     Some (Some booted_client, booted_client) \<and>
   get_mcp_client sample_loads (Some booted_client) ''http://example.org:9000'' dead_boot =
     Some (Some booted_client, booted_client)"
proof -
  have a: "get_mcp_client sample_loads None ''http://localhost:8001/'' example_boot =
     Some (Some booted_client, booted_client)"
    using get_mcp_client_idempotent [of sample_loads "''http://localhost:8001/''" example_boot]
    by (simp add: example_boot_client)
  with get_mcp_client_idempotent [of sample_loads "''http://localhost:8001/''" example_boot
      None "Some booted_client" booted_client]
  have "get_mcp_client sample_loads (Some booted_client) ''http://example.org:9000'' dead_boot =
     Some (Some booted_client, booted_client)"
    by blast
  with a show ?thesis by blast
qed

end
